(* ===== verification/Prelude.thy ===== *)
theory Prelude
  imports Main
begin

text \<open>
  Shared vocabulary of the timezone-viewer development. Time values are JavaScript
  time values (milliseconds since the epoch, an \<open>int\<close>); a thrown JavaScript
  exception is the left injection of a sum type; a \<^verbatim>\<open>forEach\<close> whose callback may
  throw, and which threads the browser's clock-read counter, is \<open>map_st\<close>. The
  generic lemmas about these combinators are collected in \<open>js_result_simps\<close>; the
  rules that let \<open>simp\<close> evaluate the model on concrete inputs (for the witnesses)
  are collected in \<open>js_eval\<close> by the theories that define them.
\<close>

named_theorems js_result_simps "characteristic equations of the error-propagating combinators"
named_theorems js_eval "unfolding rules that evaluate the modelled runtime and program on literals"

type_synonym instant = int

text \<open>The only exception the program can raise: the \<^verbatim>\<open>RangeError\<close> that
  \<^verbatim>\<open>new Intl.DateTimeFormat\<close> throws for a time zone name it does not support.\<close>

datatype js_error = RangeError string

type_synonym 'a js_result = "js_error + 'a"

text \<open>A JavaScript array read \<^verbatim>\<open>a[i]\<close>: \<^verbatim>\<open>undefined\<close> (here \<open>None\<close>) past the end.\<close>

fun js_at :: "'a list \<Rightarrow> nat \<Rightarrow> 'a option" where
  "js_at [] i = None"
| "js_at (x # xs) 0 = Some x"
| "js_at (x # xs) (Suc i) = js_at xs i"

text \<open>\<^verbatim>\<open>xs.forEach(f)\<close> building one result per element, aborted by the first throw.\<close>

fun map_js :: "('a \<Rightarrow> 'b js_result) \<Rightarrow> 'a list \<Rightarrow> 'b list js_result" where
  "map_js f [] = Inr []"
| "map_js f (x # xs) =
     (case f x of
        Inl e \<Rightarrow> Inl e
      | Inr y \<Rightarrow> (case map_js f xs of Inl e \<Rightarrow> Inl e | Inr ys \<Rightarrow> Inr (y # ys)))"

text \<open>The same loop when each call also advances a counter of the program's state
  (the number of \<^verbatim>\<open>new Date()\<close> reads so far).\<close>

fun map_st :: "('a \<Rightarrow> nat \<Rightarrow> ('b \<times> nat) js_result) \<Rightarrow> 'a list \<Rightarrow> nat \<Rightarrow> ('b list \<times> nat) js_result" where
  "map_st f [] k = Inr ([], k)"
| "map_st f (x # xs) k =
     (case f x k of
        Inl e \<Rightarrow> Inl e
      | Inr (y, k') \<Rightarrow>
          (case map_st f xs k' of Inl e \<Rightarrow> Inl e | Inr (ys, k'') \<Rightarrow> Inr (y # ys, k'')))"

subsection \<open>Lemmas on the combinators\<close>

lemma js_at_nth [js_result_simps]: "js_at xs i = (if i < length xs then Some (xs ! i) else None)"
  by (induction xs i rule: js_at.induct) auto

lemma map_js_Inr_D: "map_js f xs = Inr ys \<Longrightarrow> list_all2 (\<lambda>x y. f x = Inr y) xs ys"
  by (induction xs arbitrary: ys) (auto split: sum.splits)

lemma map_js_Inr_I: "list_all2 (\<lambda>x y. f x = Inr y) xs ys \<Longrightarrow> map_js f xs = Inr ys"
  by (induction rule: list_all2_induct) auto

lemma map_js_Inr_iff [js_result_simps]:
  "map_js f xs = Inr ys \<longleftrightarrow> list_all2 (\<lambda>x y. f x = Inr y) xs ys"
  using map_js_Inr_D map_js_Inr_I by blast

lemma map_js_Inl_iff [js_result_simps]:
  "(\<exists>e. map_js f xs = Inl e) \<longleftrightarrow> (\<exists>x\<in>set xs. \<exists>e. f x = Inl e)"
proof (induction xs)
  case Nil
  then show ?case by simp
next
  case (Cons x xs)
  then show ?case
    by (cases "f x") (auto split: sum.splits)
qed

lemma map_js_Inl_D: "map_js f xs = Inl e \<Longrightarrow> \<exists>x\<in>set xs. f x = Inl e"
  by (induction xs) (auto split: sum.splits)

lemma map_st_Inl_D: "map_st f xs k = Inl e \<Longrightarrow> \<exists>x\<in>set xs. \<exists>k'. f x k' = Inl e"
  by (induction xs arbitrary: k) (fastforce split: sum.splits prod.splits)+

lemma map_js_map [js_result_simps]: "(\<forall>x\<in>set xs. f x = Inr (g x)) \<Longrightarrow> map_js f xs = Inr (map g xs)"
  by (induction xs) auto

lemma map_js_length: "map_js f xs = Inr ys \<Longrightarrow> length ys = length xs"
  by (auto simp: map_js_Inr_iff list_all2_lengthD)

lemma map_js_cong [fundef_cong]:
  "xs = ys \<Longrightarrow> (\<And>x. x \<in> set ys \<Longrightarrow> f x = g x) \<Longrightarrow> map_js f xs = map_js g ys"
  by (induction ys arbitrary: xs) (auto split: sum.splits)

lemma map_st_Inr_length:
  "map_st f xs k = Inr (ys, k') \<Longrightarrow> length ys = length xs"
proof (induction xs arbitrary: k ys)
  case Nil
  then show ?case by simp
next
  case (Cons x xs)
  then show ?case by (auto split: sum.splits prod.splits)
qed

lemma map_st_Inl_iff [js_result_simps]:
  assumes "\<And>x k k'. (\<exists>e. f x k = Inl e) \<longleftrightarrow> (\<exists>e. f x k' = Inl e)"
  shows "(\<exists>e. map_st f xs k = Inl e) \<longleftrightarrow> (\<exists>x\<in>set xs. \<exists>e. f x k = Inl e)"
proof (induction xs arbitrary: k)
  case Nil
  then show ?case by simp
next
  case (Cons x xs)
  show ?case
  proof (cases "f x k")
    case (Inl e)
    then show ?thesis by simp
  next
    case (Inr r)
    obtain y k' where r: "r = (y, k')" by (cases r)
    have "(\<exists>e. map_st f xs k' = Inl e) \<longleftrightarrow> (\<exists>x\<in>set xs. \<exists>e. f x k = Inl e)"
      using Cons.IH [of k'] assms by blast
    with Inr r show ?thesis
      by (auto split: sum.splits prod.splits)
  qed
qed


subsection \<open>Integer division\<close>

lemma div_succ:
  fixes x d :: int
  assumes d: "0 < d"
  shows "(x + 1) div d = x div d + (if (x + 1) mod d = 0 then 1 else 0)"
proof -
  let ?r = "x mod d + 1"
  have e: "x + 1 = ?r + (x div d) * d" by simp
  have r: "0 < ?r" "?r \<le> d" using d pos_mod_sign [of d x] pos_mod_bound [of d x] by linarith+
  have q: "(x + 1) div d = ?r div d + x div d"
    using d by (subst e) (simp only: div_mult_self1 [of d] less_irrefl) 
  have m: "(x + 1) mod d = ?r mod d"
    by (simp add: mod_add_left_eq)
  show ?thesis
  proof (cases "?r = d")
    case True
    with q m d show ?thesis by simp
  next
    case False
    with r have "?r div d = 0" "?r mod d = ?r" by simp_all
    with q m r show ?thesis by simp
  qed
qed

end
