(* ===== verification/JsString.thy ===== *)
theory JsString
  imports Prelude
begin

text \<open>
  The parts of the JavaScript runtime that \<^verbatim>\<open>src/script.js\<close> calls on strings and
  numbers, written from the ECMAScript specification: \<^verbatim>\<open>String.prototype.trim\<close>,
  \<^verbatim>\<open>split\<close> with a one-character separator, \<^verbatim>\<open>padStart\<close>, the test of the regular
  expression \<^verbatim>\<open>/^[+-]?\d+$/\<close>, the global \<^verbatim>\<open>parseInt\<close>, and the conversion of an
  integral Number to a string. A JavaScript Number that the program computes is an
  integer or NaN, so it is \<open>int option\<close> with \<open>None\<close> for NaN. Characters are
  the 256 values of \<open>char\<close>: the whitespace of the runtime is the part of the
  Unicode whitespace that lies in that range.
\<close>

subsection \<open>Numbers\<close>

type_synonym js_number = "int option"

definition js_neg :: "js_number \<Rightarrow> js_number" where
  "js_neg x = map_option uminus x"

text \<open>Relational comparison with a number: false whenever NaN takes part.\<close>

definition js_ge :: "js_number \<Rightarrow> int \<Rightarrow> bool" where
  "js_ge x k = (case x of None \<Rightarrow> False | Some n \<Rightarrow> k \<le> n)"

definition js_lt :: "js_number \<Rightarrow> int \<Rightarrow> bool" where
  "js_lt x k = (case x of None \<Rightarrow> False | Some n \<Rightarrow> n < k)"

text \<open>\<^verbatim>\<open>ToBoolean\<close> of a value that is a string, \<^verbatim>\<open>null\<close> or \<^verbatim>\<open>undefined\<close>
  (\<open>None\<close>): only a non-empty string is truthy.\<close>

definition js_truthy_str :: "string option \<Rightarrow> bool" where
  "js_truthy_str x = (case x of None \<Rightarrow> False | Some s \<Rightarrow> s \<noteq> [])"

subsection \<open>Whitespace and \<^verbatim>\<open>trim\<close>\<close>

text \<open>WhiteSpace and LineTerminator code points below 256: TAB, LF, VT, FF, CR,
  SPACE and NO-BREAK SPACE.\<close>

definition js_is_ws :: "char \<Rightarrow> bool" where
  "js_is_ws c \<longleftrightarrow> of_char c \<in> {9, 10, 11, 12, 13, 32, 160 :: nat}"

definition js_trim :: "string \<Rightarrow> string" where
  "js_trim s = rev (dropWhile js_is_ws (rev (dropWhile js_is_ws s)))"

subsection \<open>\<^verbatim>\<open>split\<close> with a one-character separator\<close>

fun js_split :: "char \<Rightarrow> string \<Rightarrow> string list" where
  "js_split c [] = [[]]"
| "js_split c (x # xs) =
     (if x = c then [] # js_split c xs
      else (case js_split c xs of [] \<Rightarrow> [[x]] | p # ps \<Rightarrow> (x # p) # ps))"

text \<open>\<^verbatim>\<open>Array.prototype.join\<close>, the inverse of \<open>js_split\<close>.\<close>

fun js_join :: "char \<Rightarrow> string list \<Rightarrow> string" where
  "js_join c [] = []"
| "js_join c [p] = p"
| "js_join c (p # ps) = p @ c # js_join c ps"

subsection \<open>Decimal digits\<close>

definition js_is_digit :: "char \<Rightarrow> bool" where
  "js_is_digit c \<longleftrightarrow> (48::nat) \<le> of_char c \<and> of_char c \<le> (57 :: nat)"

definition digit_char :: "nat \<Rightarrow> char" where
  "digit_char d = char_of (48 + d)"

text \<open>The decimal numeral of a natural number, most significant digit first.\<close>

fun dec_string :: "nat \<Rightarrow> string" where
  "dec_string n = (if n < 10 then [digit_char n] else dec_string (n div 10) @ [digit_char (n mod 10)])"

declare dec_string.simps [simp del]

text \<open>\<^verbatim>\<open>Number::toString\<close> on an integral value (template literals \<^verbatim>\<open>${n}\<close>
  and \<^verbatim>\<open>String(n)\<close>); NaN prints as \<^verbatim>\<open>NaN\<close>.\<close>

definition js_int_to_str :: "int \<Rightarrow> string" where
  "js_int_to_str i = (if i < 0 then CHR ''-'' # dec_string (nat (- i)) else dec_string (nat i))"

definition js_num_str :: "js_number \<Rightarrow> string" where
  "js_num_str x = (case x of None \<Rightarrow> ''NaN'' | Some n \<Rightarrow> js_int_to_str n)"

subsection \<open>\<^verbatim>\<open>parseInt\<close>\<close>

text \<open>The value of a character as a digit in radix \<open>r\<close> (letters of either case
  count from ten).\<close>

definition radix_digit :: "nat \<Rightarrow> char \<Rightarrow> nat option" where
  "radix_digit r c =
     (let n = (of_char c :: nat);
          v = (if 48 \<le> n \<and> n \<le> 57 then Some (n - 48)
               else if 97 \<le> n \<and> n \<le> 122 then Some (n - 87)
               else if 65 \<le> n \<and> n \<le> 90 then Some (n - 55) else None)
      in case v of Some d \<Rightarrow> (if d < r then Some d else None) | None \<Rightarrow> None)"

definition radix_value :: "nat \<Rightarrow> string \<Rightarrow> nat" where
  "radix_value r ds = foldl (\<lambda>acc c. r * acc + (case radix_digit r c of Some d \<Rightarrow> d | None \<Rightarrow> 0)) 0 ds"

definition js_sign_prefix :: "string \<Rightarrow> int \<times> string" where
  "js_sign_prefix s =
     (case s of
        [] \<Rightarrow> (1, [])
      | c # r \<Rightarrow> (if c = CHR ''-'' then (-1, r) else if c = CHR ''+'' then (1, r) else (1, s)))"

definition js_radix_prefix :: "string \<Rightarrow> nat \<times> string" where
  "js_radix_prefix s = (if take 2 s = ''0x'' \<or> take 2 s = ''0X'' then (16, drop 2 s) else (10, s))"

text \<open>\<^verbatim>\<open>parseInt(string)\<close> without a radix: leading whitespace skipped, an optional
  sign, a \<^verbatim>\<open>0x\<close> prefix switching to radix 16, then the longest run of digits; NaN
  when the run is empty. The value is exact: the rounding of runs longer than 2^53 is
  not modelled.\<close>

definition js_parse_int :: "string \<Rightarrow> js_number" where
  "js_parse_int str =
     (case js_sign_prefix (dropWhile js_is_ws str) of
        (sign, s) \<Rightarrow>
          (case js_radix_prefix s of
             (r, s') \<Rightarrow>
               (let z = takeWhile (\<lambda>c. radix_digit r c \<noteq> None) s'
                in if z = [] then None else Some (sign * int (radix_value r z)))))"

subsection \<open>The regular expression \<^verbatim>\<open>/^[+-]?\d+$/\<close>\<close>

definition js_is_int_literal :: "string \<Rightarrow> bool" where
  "js_is_int_literal s =
     (case s of
        [] \<Rightarrow> False
      | c # r \<Rightarrow> (if c = CHR ''+'' \<or> c = CHR ''-'' then r \<noteq> [] \<and> list_all js_is_digit r
                  else list_all js_is_digit s))"

text \<open>The integer such a literal denotes.\<close>

definition int_literal_value :: "string \<Rightarrow> int" where
  "int_literal_value s =
     (case s of
        [] \<Rightarrow> 0
      | c # r \<Rightarrow> (if c = CHR ''-'' then - int (radix_value 10 r)
                  else if c = CHR ''+'' then int (radix_value 10 r)
                  else int (radix_value 10 s)))"

subsection \<open>\<^verbatim>\<open>padStart\<close> with a one-character filler\<close>

definition js_pad_start :: "nat \<Rightarrow> char \<Rightarrow> string \<Rightarrow> string" where
  "js_pad_start n c s = replicate (n - length s) c @ s"

subsection \<open>Lemmas: split and join\<close>

lemma js_split_not_Nil [simp]: "js_split c s \<noteq> []"
  by (induction s) (auto split: list.splits)

lemma js_join_Cons: "js_join c (p # ps) = (if ps = [] then p else p @ c # js_join c ps)"
  by (cases ps) auto

lemma js_join_split: "js_join c (js_split c s) = s"
proof (induction s)
  case Nil
  then show ?case by simp
next
  case (Cons x xs)
  show ?case
  proof (cases "x = c")
    case True
    with Cons.IH show ?thesis by (simp add: js_join_Cons)
  next
    case False
    then obtain p ps where sp: "js_split c xs = p # ps"
      using js_split_not_Nil by (cases "js_split c xs") blast+
    with Cons.IH have "js_join c (p # ps) = xs" by simp
    with False sp show ?thesis by (simp add: js_join_Cons split: if_splits)
  qed
qed

lemma js_split_sep_free: "p \<in> set (js_split c s) \<Longrightarrow> c \<notin> set p"
proof (induction s arbitrary: p)
  case Nil
  then show ?case by simp
next
  case (Cons x xs)
  then show ?case
    by (auto split: if_splits list.splits)
qed

lemma length_js_split: "length (js_split c s) = Suc (count_list s c)"
proof (induction s)
  case Nil
  then show ?case by simp
next
  case (Cons x xs)
  then show ?case
    by (cases "js_split c xs") auto
qed

lemma js_split_no_sep: "c \<notin> set s \<Longrightarrow> js_split c s = [s]"
  by (induction s) auto

lemma js_split_append_sep: "c \<notin> set a \<Longrightarrow> js_split c (a @ c # b) = a # js_split c b"
  by (induction a) auto

subsection \<open>Lemmas: digits and numerals\<close>

lemma js_is_digit_digit_char: "d < 10 \<Longrightarrow> js_is_digit (digit_char d)"
  by (simp add: js_is_digit_def digit_char_def)

lemma radix_digit_digit_char: "d < 10 \<Longrightarrow> radix_digit 10 (digit_char d) = Some d"
  by (simp add: radix_digit_def digit_char_def Let_def)

lemma radix_digit_10_iff: "radix_digit 10 c \<noteq> None \<longleftrightarrow> js_is_digit c"
  by (auto simp: radix_digit_def js_is_digit_def Let_def)

lemma radix_value_snoc:
  "radix_value r (xs @ [c]) = r * radix_value r xs + (case radix_digit r c of Some d \<Rightarrow> d | None \<Rightarrow> 0)"
  by (simp add: radix_value_def)

lemma dec_string_not_Nil [simp]: "dec_string n \<noteq> []"
  by (subst dec_string.simps) simp

lemma dec_string_digits: "list_all js_is_digit (dec_string n)"
proof (induction n rule: dec_string.induct)
  case (1 n)
  then show ?case
    by (subst dec_string.simps) (auto simp: js_is_digit_digit_char)
qed

lemma radix_value_dec_string: "radix_value 10 (dec_string n) = n"
proof (induction n rule: dec_string.induct)
  case (1 n)
  show ?case
  proof (cases "n < 10")
    case True
    then show ?thesis
      by (subst dec_string.simps) (simp add: radix_value_def radix_digit_digit_char)
  next
    case False
    with "1.IH" have "radix_value 10 (dec_string (n div 10)) = n div 10" by simp
    with False show ?thesis
      by (subst dec_string.simps) (simp add: radix_value_snoc radix_digit_digit_char)
  qed
qed

lemma digit_not_ws: "js_is_digit c \<Longrightarrow> \<not> js_is_ws c"
  by (auto simp: js_is_digit_def js_is_ws_def)

lemma sign_chars [simp]:
  "\<not> js_is_digit CHR ''-''" "\<not> js_is_digit CHR ''+''" "\<not> js_is_ws CHR ''-''" "\<not> js_is_ws CHR ''+''"
  by (simp_all add: js_is_digit_def js_is_ws_def)

lemma digits_radix_prefix: "list_all js_is_digit ds \<Longrightarrow> js_radix_prefix ds = (10, ds)"
proof -
  assume ds: "list_all js_is_digit ds"
  have "take 2 ds \<noteq> ''0x'' \<and> take 2 ds \<noteq> ''0X''"
  proof (intro conjI notI)
    assume "take 2 ds = ''0x''"
    then have "CHR ''x'' \<in> set ds" using set_take_subset [of 2 ds] by auto
    with ds show False by (auto simp: list_all_iff js_is_digit_def)
  next
    assume "take 2 ds = ''0X''"
    then have "CHR ''X'' \<in> set ds" using set_take_subset [of 2 ds] by auto
    with ds show False by (auto simp: list_all_iff js_is_digit_def)
  qed
  then show ?thesis by (simp add: js_radix_prefix_def)
qed

lemma digits_takeWhile: "list_all js_is_digit ds \<Longrightarrow> takeWhile (\<lambda>c. radix_digit 10 c \<noteq> None) ds = ds"
  by (simp add: list_all_iff radix_digit_10_iff del: not_None_eq)

lemma js_parse_int_digits:
  assumes "list_all js_is_digit ds" and "ds \<noteq> []"
  shows "js_parse_int (CHR ''-'' # ds) = Some (- int (radix_value 10 ds))"
    and "js_parse_int (CHR ''+'' # ds) = Some (int (radix_value 10 ds))"
    and "js_parse_int ds = Some (int (radix_value 10 ds))"
proof -
  obtain c r where ds: "ds = c # r" using assms(2) by (cases ds) auto
  with assms(1) have c: "js_is_digit c" by simp
  then have "c \<noteq> CHR ''-'' \<and> c \<noteq> CHR ''+''" by auto
  with c ds have "js_sign_prefix (dropWhile js_is_ws ds) = (1, ds)"
    by (simp add: js_sign_prefix_def digit_not_ws)
  then show "js_parse_int ds = Some (int (radix_value 10 ds))"
    using assms by (simp add: js_parse_int_def digits_radix_prefix digits_takeWhile del: not_None_eq)
  show "js_parse_int (CHR ''-'' # ds) = Some (- int (radix_value 10 ds))"
    using assms by (simp add: js_parse_int_def js_sign_prefix_def digits_radix_prefix digits_takeWhile
        del: not_None_eq)
  show "js_parse_int (CHR ''+'' # ds) = Some (int (radix_value 10 ds))"
    using assms by (simp add: js_parse_int_def js_sign_prefix_def digits_radix_prefix digits_takeWhile
        del: not_None_eq)
qed

text \<open>Every string the regular expression accepts is read back by \<^verbatim>\<open>parseInt\<close>
  as the integer it denotes.\<close>

lemma js_parse_int_literal:
  "js_is_int_literal s \<Longrightarrow> js_parse_int s = Some (int_literal_value s)"
  by (cases s) (auto simp: js_is_int_literal_def int_literal_value_def js_parse_int_digits split: if_splits)

lemma js_int_to_str_literal: "js_is_int_literal (js_int_to_str i)"
proof -
  obtain c r where cr: "dec_string (nat \<bar>i\<bar>) = c # r"
    by (cases "dec_string (nat \<bar>i\<bar>)") auto
  have "list_all js_is_digit (c # r)" using dec_string_digits cr by metis
  then show ?thesis
    using cr by (auto simp: js_is_int_literal_def js_int_to_str_def)
qed

lemma int_literal_value_int_to_str: "int_literal_value (js_int_to_str i) = i"
proof -
  obtain c r where cr: "dec_string (nat \<bar>i\<bar>) = c # r"
    by (cases "dec_string (nat \<bar>i\<bar>)") auto
  have "js_is_digit c" using dec_string_digits [of "nat \<bar>i\<bar>"] cr by simp
  then have "c \<noteq> CHR ''-'' \<and> c \<noteq> CHR ''+''" by auto
  with cr radix_value_dec_string [of "nat \<bar>i\<bar>"] show ?thesis
    by (auto simp: int_literal_value_def js_int_to_str_def)
qed

lemma js_parse_int_int_to_str: "js_parse_int (js_int_to_str i) = Some i"
  by (simp add: js_parse_int_literal js_int_to_str_literal int_literal_value_int_to_str)

lemma js_int_to_str_inj: "js_int_to_str i = js_int_to_str j \<longleftrightarrow> i = j"
  by (metis int_literal_value_int_to_str)

subsection \<open>Lemmas: trim\<close>

lemma js_trim_id: "\<forall>c\<in>set s. \<not> js_is_ws c \<Longrightarrow> js_trim s = s"
proof -
  assume "\<forall>c\<in>set s. \<not> js_is_ws c"
  then have "dropWhile js_is_ws s = s" and "dropWhile js_is_ws (rev s) = rev s"
    by (auto simp: dropWhile_eq_self_iff hd_rev last_in_set)
  then show ?thesis by (simp add: js_trim_def)
qed

lemma js_int_to_str_no_ws: "\<forall>c\<in>set (js_int_to_str i). \<not> js_is_ws c"
  using dec_string_digits by (auto simp: js_int_to_str_def list_all_iff digit_not_ws)

subsection \<open>Lemmas: trim and split together\<close>

lemma digit_char_simps [js_eval]:
  "digit_char 0 = CHR ''0''" "digit_char 1 = CHR ''1''" "digit_char 2 = CHR ''2''"
  "digit_char 3 = CHR ''3''" "digit_char 4 = CHR ''4''" "digit_char 5 = CHR ''5''"
  "digit_char 6 = CHR ''6''" "digit_char 7 = CHR ''7''" "digit_char 8 = CHR ''8''"
  "digit_char 9 = CHR ''9''"
  by (simp_all add: digit_char_def char_of_eq_iff)

lemmas [js_eval] = js_trim_def js_is_ws_def js_is_int_literal_def js_is_digit_def js_parse_int_def
  js_sign_prefix_def js_radix_prefix_def radix_digit_def radix_value_def js_neg_def js_ge_def js_lt_def
  js_num_str_def js_int_to_str_def dec_string.simps js_truthy_str_def js_pad_start_def int_literal_value_def

text \<open>Every string is its trimmed part between two runs of whitespace.\<close>

lemma js_trim_decomp:
  obtains w1 w2 where "s = w1 @ js_trim s @ w2" and "\<forall>x\<in>set w1. js_is_ws x" and "\<forall>x\<in>set w2. js_is_ws x"
proof -
  let ?u = "dropWhile js_is_ws s"
  have s: "s = takeWhile js_is_ws s @ ?u" by simp
  have "rev ?u = takeWhile js_is_ws (rev ?u) @ dropWhile js_is_ws (rev ?u)" by simp
  then have "?u = js_trim s @ rev (takeWhile js_is_ws (rev ?u))"
    by (metis js_trim_def rev_append rev_rev_ident)
  with s have "s = takeWhile js_is_ws s @ js_trim s @ rev (takeWhile js_is_ws (rev ?u))" by simp
  moreover have "\<forall>x\<in>set (takeWhile js_is_ws s). js_is_ws x"
    by (auto dest: set_takeWhileD)
  moreover have "\<forall>x\<in>set (rev (takeWhile js_is_ws (rev ?u))). js_is_ws x"
    by (auto dest: set_takeWhileD)
  ultimately show ?thesis by (rule that)
qed

lemma js_trim_ws_prefix: "\<forall>x\<in>set w. js_is_ws x \<Longrightarrow> js_trim (w @ t) = js_trim t"
  by (simp add: js_trim_def)

lemma js_trim_ws_suffix: "\<forall>x\<in>set w. js_is_ws x \<Longrightarrow> js_trim (t @ w) = js_trim t"
proof (cases "\<forall>x\<in>set t. js_is_ws x")
  case True
  assume "\<forall>x\<in>set w. js_is_ws x"
  with True have d: "dropWhile js_is_ws (t @ w) = []" "dropWhile js_is_ws t = []"
    by (simp_all add: dropWhile_eq_Nil_conv)
  have "js_trim (t @ w) = []" "js_trim t = []"
    by (simp_all only: js_trim_def d rev.simps dropWhile.simps)
  then show ?thesis by simp
next
  case False
  assume w: "\<forall>x\<in>set w. js_is_ws x"
  from False obtain x where "x \<in> set t" "\<not> js_is_ws x" by blast
  then have "dropWhile js_is_ws (t @ w) = dropWhile js_is_ws t @ w" by simp
  moreover have "dropWhile js_is_ws (rev w @ r) = dropWhile js_is_ws r" for r
    using w by (simp add: dropWhile_append)
  ultimately show ?thesis by (simp add: js_trim_def)
qed

lemma js_trim_mem: "\<not> js_is_ws c \<Longrightarrow> c \<in> set (js_trim s) \<longleftrightarrow> c \<in> set s"
proof -
  assume c: "\<not> js_is_ws c"
  obtain w1 w2 where "s = w1 @ js_trim s @ w2" "\<forall>x\<in>set w1. js_is_ws x" "\<forall>x\<in>set w2. js_is_ws x"
    by (rule js_trim_decomp)
  with c show ?thesis by (metis Un_iff set_append)
qed

lemma hd_js_split: "hd (js_split c s) = takeWhile (\<lambda>x. x \<noteq> c) s"
  by (induction s) (auto split: list.splits)

lemma js_split_prefix:
  "\<forall>x\<in>set w. x \<noteq> c \<Longrightarrow> js_split c (w @ t) = (w @ hd (js_split c t)) # tl (js_split c t)"
  by (induction w) (auto split: list.splits)

lemma js_split_suffix:
  "\<forall>x\<in>set w. x \<noteq> c \<Longrightarrow> js_split c (t @ w) = butlast (js_split c t) @ [last (js_split c t) @ w]"
proof (induction t)
  case Nil
  then have "c \<notin> set w" by blast
  then show ?case by (simp add: js_split_no_sep)
next
  case (Cons x t)
  show ?case
  proof (cases "x = c")
    case True
    with Cons show ?thesis by simp
  next
    case False
    obtain p ps where sp: "js_split c t = p # ps"
      using js_split_not_Nil by (cases "js_split c t") blast+
    with Cons False show ?thesis
      by (cases ps) auto
  qed
qed

text \<open>Trimming the whole string before the split does not change the trimmed pieces.\<close>

lemma map_trim_split_trim:
  assumes c: "\<not> js_is_ws c"
  shows "map js_trim (js_split c (js_trim s)) = map js_trim (js_split c s)"
proof -
  obtain w1 w2 where s: "s = w1 @ js_trim s @ w2"
    and w1: "\<forall>x\<in>set w1. js_is_ws x" and w2: "\<forall>x\<in>set w2. js_is_ws x"
    by (rule js_trim_decomp)
  let ?V = "js_split c (js_trim s)"
  from w1 c have w1c: "\<forall>x\<in>set w1. x \<noteq> c" by blast
  from w2 c have w2c: "\<forall>x\<in>set w2. x \<noteq> c" by blast
  have S: "js_split c (js_trim s @ w2) = butlast ?V @ [last ?V @ w2]"
    using w2c by (rule js_split_suffix)
  have "map js_trim (butlast ?V @ [last ?V @ w2]) = map js_trim ?V"
    using w2 by (simp add: js_trim_ws_suffix) (metis append_butlast_last_id js_split_not_Nil map_append list.map)
  moreover have "map js_trim (js_split c (w1 @ js_trim s @ w2)) = map js_trim (js_split c (js_trim s @ w2))"
  proof -
    let ?S = "js_split c (js_trim s @ w2)"
    have "js_split c (w1 @ js_trim s @ w2) = (w1 @ hd ?S) # tl ?S"
      using w1c by (rule js_split_prefix)
    moreover have "?S = hd ?S # tl ?S" by simp
    ultimately show ?thesis
      using w1 by (metis js_trim_ws_prefix list.simps(9))
  qed
  ultimately show ?thesis using S s by metis
qed

lemma js_split_append: "js_split c (a @ c # b) = js_split c a @ js_split c b"
proof (induction a)
  case Nil
  then show ?case by simp
next
  case (Cons x a)
  show ?case
  proof (cases "x = c")
    case True
    with Cons show ?thesis by simp
  next
    case False
    obtain p ps where sp: "js_split c a = p # ps"
      using js_split_not_Nil by (cases "js_split c a") blast+
    with Cons False show ?thesis by simp
  qed
qed

lemma colon_not_ws [simp]: "\<not> js_is_ws CHR '':''"
  by (simp add: js_is_ws_def)

lemma int_literal_no_colon: "js_is_int_literal s \<Longrightarrow> CHR '':'' \<notin> set s"
  by (cases s) (auto simp: js_is_int_literal_def list_all_iff js_is_digit_def split: if_splits)

text \<open>A sign followed by the digits of an integer is a literal of that integer.\<close>

lemma signed_int_to_str_literal:
  "js_is_int_literal ((if 0 \<le> n then ''+'' else '''') @ js_int_to_str n)
   \<and> int_literal_value ((if 0 \<le> n then ''+'' else '''') @ js_int_to_str n) = n"
proof -
  obtain c r where cr: "dec_string (nat \<bar>n\<bar>) = c # r"
    by (cases "dec_string (nat \<bar>n\<bar>)") auto
  have dig: "list_all js_is_digit (c # r)" using dec_string_digits cr by metis
  then have "c \<noteq> CHR ''-'' \<and> c \<noteq> CHR ''+''" by auto
  with cr dig radix_value_dec_string [of "nat \<bar>n\<bar>"] show ?thesis
    by (auto simp: js_is_int_literal_def int_literal_value_def js_int_to_str_def)
qed

lemma foldl_replicate_fix: "f a c = a \<Longrightarrow> foldl f a (replicate m c) = a"
  by (induction m) simp_all

lemma radix_value_zeros: "radix_value r (replicate m CHR ''0'' @ ds) = radix_value r ds"
proof -
  have "(\<lambda>acc c. r * acc + (case radix_digit r c of Some d \<Rightarrow> d | None \<Rightarrow> 0)) 0 CHR ''0'' = 0"
    by (simp add: radix_digit_def)
  then have "foldl (\<lambda>acc c. r * acc + (case radix_digit r c of Some d \<Rightarrow> d | None \<Rightarrow> 0)) 0
      (replicate m CHR ''0'') = 0"
    by (rule foldl_replicate_fix)
  then show ?thesis by (simp add: radix_value_def)
qed

lemma zero_is_digit [simp]: "js_is_digit CHR ''0''"
  by (simp add: js_is_digit_def)

text \<open>A non-negative integer padded with leading zeros reads back as itself.\<close>

lemma js_parse_int_pad_start: "0 \<le> n \<Longrightarrow> js_parse_int (js_pad_start k CHR ''0'' (js_int_to_str n)) = Some n"
proof -
  assume n: "0 \<le> n"
  let ?ds = "replicate (k - length (js_int_to_str n)) CHR ''0'' @ dec_string (nat n)"
  have "list_all js_is_digit ?ds" "?ds \<noteq> []"
    using dec_string_digits [of "nat n"] by (auto simp: list_all_iff)
  then have "js_parse_int ?ds = Some (int (radix_value 10 ?ds))"
    by (rule js_parse_int_digits(3))
  with n show ?thesis
    by (simp add: js_pad_start_def js_int_to_str_def radix_value_zeros radix_value_dec_string)
qed

lemma last_js_split: "last (js_split c s) = rev (takeWhile (\<lambda>x. x \<noteq> c) (rev s))"
proof -
  let ?w = "rev (takeWhile (\<lambda>x. x \<noteq> c) (rev s))" and ?t = "rev (dropWhile (\<lambda>x. x \<noteq> c) (rev s))"
  have s: "s = ?t @ ?w" by (metis rev_append rev_rev_ident takeWhile_dropWhile_id)
  have w: "c \<notin> set ?w" by (auto dest: set_takeWhileD)
  show ?thesis
  proof (cases "dropWhile (\<lambda>x. x \<noteq> c) (rev s)")
    case Nil
    then have "takeWhile (\<lambda>x. x \<noteq> c) (rev s) = rev s"
      using takeWhile_dropWhile_id [of "\<lambda>x. x \<noteq> c" "rev s"] by simp
    then have "s = ?w" by (metis rev_rev_ident)
    then show ?thesis using w by (metis js_split_no_sep last_ConsL)
  next
    case (Cons y ys)
    then have "y = c" using hd_dropWhile [of "\<lambda>x. x \<noteq> c" "rev s"] by fastforce
    with Cons s have "s = rev ys @ c # ?w" by simp
    then have "js_split c s = js_split c (rev ys) @ js_split c ?w" by (metis js_split_append)
    then show ?thesis using w by (simp add: js_split_no_sep)
  qed
qed

lemma pad2_dec_string:
  assumes "n < 100"
  shows "js_pad_start 2 CHR ''0'' (dec_string n) = [digit_char (n div 10), digit_char (n mod 10)]"
proof (cases "n < 10")
  case True
  then have "dec_string n = [digit_char n]" by (subst dec_string.simps) simp
  with True show ?thesis by (simp add: js_pad_start_def digit_char_simps)
next
  case False
  then have "n div 10 < 10" using assms by (simp add: less_mult_imp_div_less)
  then have "dec_string (n div 10) = [digit_char (n div 10)]" by (subst dec_string.simps) simp
  with False have "dec_string n = [digit_char (n div 10), digit_char (n mod 10)]"
    by (subst dec_string.simps) simp
  then show ?thesis by (simp add: js_pad_start_def)
qed

end
