(* ===== verification/Parser.thy ===== *)
theory Parser
  imports JsString
begin

text \<open>
  The Specifier Parser: \<^verbatim>\<open>getTimezones\<close> (src/script.js, lines 2--45). The value of
  the \<^verbatim>\<open>tz\<close> query parameter (\<open>None\<close> when absent, as \<^verbatim>\<open>URLSearchParams.get\<close>
  returns \<^verbatim>\<open>null\<close>) is split on commas and every token is parsed on its own into a
  \<open>tz_column\<close>, the object \<^verbatim>\<open>{ timezone, customLabel, isPureOffset }\<close>. The token
  parser is \<open>parse_tz_token\<close>, the arrow function of lines 7--36; its label split
  (lines 10--16) and the two strings it synthesises for a bare offset (lines 23 and 27)
  are definitions of their own.
\<close>

record tz_column =
  timezone :: string
  customLabel :: "string option"
  isPureOffset :: bool

definition default_timezones :: "tz_column list" where
  "default_timezones =
     [\<lparr>timezone = ''Europe/London'', customLabel = None, isPureOffset = False\<rparr>,
      \<lparr>timezone = ''America/New_York'', customLabel = None, isPureOffset = False\<rparr>,
      \<lparr>timezone = ''America/Chicago'', customLabel = None, isPureOffset = False\<rparr>,
      \<lparr>timezone = ''America/Los_Angeles'', customLabel = None, isPureOffset = False\<rparr>]"

text \<open>Lines 10--16: when the trimmed token contains a colon, it is split on every
  colon, each piece trimmed, and the first two pieces destructured into the zone and
  the label (a third piece and beyond are dropped).\<close>

definition split_label :: "string \<Rightarrow> string \<times> string option" where
  "split_label trimmed =
     (if CHR '':'' \<in> set trimmed
      then (let parts = map js_trim (js_split CHR '':'' trimmed) in (hd parts, js_at parts 1))
      else (trimmed, None))"

text \<open>Line 23: the \<^verbatim>\<open>Etc/GMT\<close> zone name for an (already inverted) offset.\<close>

definition iana_timezone :: "js_number \<Rightarrow> string" where
  "iana_timezone ianaOffset =
     ''Etc/GMT'' @ (if js_ge ianaOffset 0 then ''+'' else '''') @ js_num_str ianaOffset"

text \<open>Line 27: the display label of a pure offset.\<close>

definition offset_label :: "js_number \<Rightarrow> string" where
  "offset_label offset = ''UTC'' @ (if js_ge offset 0 then ''+'' else '''') @ js_num_str offset"

text \<open>Lines 7--36: one token.\<close>

definition parse_tz_token :: "string \<Rightarrow> tz_column" where
  "parse_tz_token tz =
     (let trimmed = js_trim tz in
      case split_label trimmed of
        (zone, label) \<Rightarrow>
          (if js_is_int_literal zone then
             (let offset = js_parse_int zone;
                  ianaOffset = js_neg offset;
                  ianaTimezone = iana_timezone ianaOffset
              in if \<not> js_truthy_str label
                 then \<lparr>timezone = ianaTimezone, customLabel = Some (offset_label offset),
                       isPureOffset = True\<rparr>
                 else \<lparr>timezone = ianaTimezone, customLabel = label, isPureOffset = False\<rparr>)
           else \<lparr>timezone = zone, customLabel = label, isPureOffset = False\<rparr>))"

text \<open>Lines 2--45. \<^verbatim>\<open>if (tzParam)\<close>: \<^verbatim>\<open>null\<close> and the empty string are falsy and
  give the default columns.\<close>

definition getTimezones :: "string option \<Rightarrow> tz_column list" where
  "getTimezones tzParam =
     (case tzParam of
        None \<Rightarrow> default_timezones
      | Some p \<Rightarrow> (if p = [] then default_timezones else map parse_tz_token (js_split CHR '','' p)))"

text \<open>The invariant of a column (the data model of the specification): a pure-offset
  column carries a derived label \<^verbatim>\<open>UTC\<close>\<open>\<plusminus>n\<close> and the zone \<^verbatim>\<open>Etc/GMT\<close> of the
  inverted offset; its label is never text of the user.\<close>

definition pure_label_offset :: "string \<Rightarrow> js_number" where
  "pure_label_offset l = (if take 3 l = ''UTC'' then js_parse_int (drop 3 l) else None)"

definition column_ok :: "tz_column \<Rightarrow> bool" where
  "column_ok c =
     (if isPureOffset c then
        (case customLabel c of
           None \<Rightarrow> False
         | Some l \<Rightarrow> (case pure_label_offset l of
                        None \<Rightarrow> False
                      | Some n \<Rightarrow> l = offset_label (Some n) \<and> timezone c = iana_timezone (Some (- n))))
      else True)"

lemmas [js_eval] = default_timezones_def split_label_def iana_timezone_def offset_label_def
  pure_label_offset_def column_ok_def

subsection \<open>Lemmas: the label split and the two branches of the token parser\<close>

lemma split_label_colon:
  assumes a: "CHR '':'' \<notin> set a"
  shows "split_label (js_trim (a @ CHR '':'' # b)) =
           (js_trim a, Some (js_trim (takeWhile (\<lambda>x. x \<noteq> CHR '':'') b)))"
proof -
  have mem: "CHR '':'' \<in> set (js_trim (a @ CHR '':'' # b))"
    by (simp add: js_trim_mem)
  have parts: "map js_trim (js_split CHR '':'' (js_trim (a @ CHR '':'' # b)))
        = js_trim a # map js_trim (js_split CHR '':'' b)"
    by (simp add: map_trim_split_trim js_split_append_sep [OF a])
  obtain p ps where sp: "js_split CHR '':'' b = p # ps"
    using js_split_not_Nil by (cases "js_split CHR '':'' b") blast+
  then have "p = takeWhile (\<lambda>x. x \<noteq> CHR '':'') b"
    using hd_js_split [of "CHR '':''" b] by simp
  with mem parts sp show ?thesis
    by (simp add: split_label_def)
qed

lemma split_label_no_colon:
  "CHR '':'' \<notin> set tok \<Longrightarrow> split_label (js_trim tok) = (js_trim tok, None)"
  by (simp add: split_label_def js_trim_mem)

lemma parse_tz_token_literal:
  assumes "split_label (js_trim tok) = (zone, label)" and "js_is_int_literal zone"
  shows "parse_tz_token tok =
           (let n = int_literal_value zone in
            if \<not> js_truthy_str label
            then \<lparr>timezone = iana_timezone (Some (- n)), customLabel = Some (offset_label (Some n)),
                  isPureOffset = True\<rparr>
            else \<lparr>timezone = iana_timezone (Some (- n)), customLabel = label, isPureOffset = False\<rparr>)"
  using assms by (simp add: parse_tz_token_def js_parse_int_literal js_neg_def Let_def)

lemma parse_tz_token_nonliteral:
  assumes "split_label (js_trim tok) = (zone, label)" and "\<not> js_is_int_literal zone"
  shows "parse_tz_token tok = \<lparr>timezone = zone, customLabel = label, isPureOffset = False\<rparr>"
  using assms by (simp add: parse_tz_token_def)

text \<open>A bare literal token is parsed by the integer it denotes alone.\<close>

lemma parse_tz_token_bare_literal:
  assumes "js_is_int_literal (js_trim tok)"
  shows "parse_tz_token tok =
           (let n = int_literal_value (js_trim tok) in
            \<lparr>timezone = iana_timezone (Some (- n)), customLabel = Some (offset_label (Some n)),
             isPureOffset = True\<rparr>)"
proof -
  have "CHR '':'' \<notin> set tok"
    using int_literal_no_colon [OF assms] by (simp add: js_trim_mem)
  then have "split_label (js_trim tok) = (js_trim tok, None)"
    by (rule split_label_no_colon)
  with assms show ?thesis
    by (simp add: parse_tz_token_literal js_truthy_str_def Let_def)
qed

lemma iana_timezone_Some:
  "iana_timezone (Some m) = ''Etc/GMT'' @ (if 0 \<le> m then ''+'' else '''') @ js_int_to_str m"
  by (simp add: iana_timezone_def js_ge_def js_num_str_def)

lemma offset_label_Some:
  "offset_label (Some m) = ''UTC'' @ (if 0 \<le> m then ''+'' else '''') @ js_int_to_str m"
  by (simp add: offset_label_def js_ge_def js_num_str_def)

lemma pure_label_offset_offset_label: "pure_label_offset (offset_label (Some n)) = Some n"
  using signed_int_to_str_literal [of n]
  by (simp add: pure_label_offset_def offset_label_Some js_parse_int_literal)

lemma signed_int_to_str_trim:
  "js_trim ((if 0 \<le> n then ''+'' else '''') @ js_int_to_str n) = (if 0 \<le> n then ''+'' else '''') @ js_int_to_str n"
  using js_int_to_str_no_ws [of n] by (intro js_trim_id) auto

subsection \<open>Properties of the parser\<close>

text \<open>C3: a token that is, after trimming, a bare integer \<open>n\<close> (optional sign, digits)
  gives a pure-offset column whose zone is \<^verbatim>\<open>Etc/GMT\<close> with the sign of \<open>n\<close>
  inverted and whose label is \<^verbatim>\<open>UTC\<close> with the sign of \<open>n\<close> kept (\<^verbatim>\<open>+\<close> for zero).\<close>

theorem parse_tz_token_pure_offset:
  assumes "js_is_int_literal (js_trim tok)"
  shows "parse_tz_token tok =
           (let n = int_literal_value (js_trim tok) in
            \<lparr>timezone = ''Etc/GMT'' @ (if n \<le> 0 then ''+'' else ''-'') @ dec_string (nat \<bar>n\<bar>),
             customLabel = Some (''UTC'' @ (if 0 \<le> n then ''+'' else ''-'') @ dec_string (nat \<bar>n\<bar>)),
             isPureOffset = True\<rparr>)"
  using parse_tz_token_bare_literal [OF assms]
  by (auto simp: Let_def iana_timezone_Some offset_label_Some js_int_to_str_def)

theorem parse_tz_token_pure_offset_witness:
  "js_is_int_literal (js_trim '' +4 '') \<and>
   parse_tz_token '' +4 '' = \<lparr>timezone = ''Etc/GMT-4'', customLabel = Some ''UTC+4'', isPureOffset = True\<rparr>"
proof -
  have h: "js_is_int_literal (js_trim '' +4 '')" by (simp add: js_eval)
  show ?thesis using parse_tz_token_pure_offset [OF h] h by (simp add: js_eval)
qed

text \<open>C11: a token with a colon and a non-empty label (the text after the first colon, up
  to the next colon, trimmed) gives a column that is not a pure offset, carries that
  label, and whose zone is the inverted \<^verbatim>\<open>Etc/GMT\<close> zone when the part before the colon
  is a bare integer and that part itself otherwise.\<close>

theorem parse_tz_token_labelled:
  assumes "CHR '':'' \<notin> set a" and "js_trim (takeWhile (\<lambda>x. x \<noteq> CHR '':'') b) \<noteq> []"
  shows "parse_tz_token (a @ CHR '':'' # b) =
           \<lparr>timezone = (if js_is_int_literal (js_trim a)
                        then iana_timezone (Some (- int_literal_value (js_trim a))) else js_trim a),
            customLabel = Some (js_trim (takeWhile (\<lambda>x. x \<noteq> CHR '':'') b)),
            isPureOffset = False\<rparr>"
  using assms
  by (cases "js_is_int_literal (js_trim a)")
     (simp_all add: parse_tz_token_literal parse_tz_token_nonliteral split_label_colon js_truthy_str_def Let_def)

theorem parse_tz_token_labelled_witness:
  "CHR '':'' \<notin> set ''+4'' \<and> js_trim (takeWhile (\<lambda>x. x \<noteq> CHR '':'') ''Dubai'') \<noteq> [] \<and>
   parse_tz_token (''+4'' @ CHR '':'' # ''Dubai'') =
     \<lparr>timezone = ''Etc/GMT-4'', customLabel = Some ''Dubai'', isPureOffset = False\<rparr>"
proof -
  have h1: "CHR '':'' \<notin> set ''+4''" by simp
  have h2: "js_trim (takeWhile (\<lambda>x. x \<noteq> CHR '':'') ''Dubai'') \<noteq> []" by (simp add: js_eval)
  show ?thesis using parse_tz_token_labelled [OF h1 h2] h1 h2 by (simp add: js_eval)
qed

text \<open>C12: an empty label after an integer is no label at all: the column is the
  pure-offset column of the integer alone, although the token has a colon.\<close>

theorem parse_tz_token_empty_label:
  assumes "CHR '':'' \<notin> set a" and "js_trim (takeWhile (\<lambda>x. x \<noteq> CHR '':'') b) = []"
    and "js_is_int_literal (js_trim a)"
  shows "parse_tz_token (a @ CHR '':'' # b) = parse_tz_token a"
proof -
  have "split_label (js_trim (a @ CHR '':'' # b)) = (js_trim a, Some [])"
    using assms(1,2) by (simp add: split_label_colon)
  with assms(3) show ?thesis
    by (simp add: parse_tz_token_literal parse_tz_token_bare_literal js_truthy_str_def Let_def)
qed

theorem parse_tz_token_empty_label_witness:
  "CHR '':'' \<notin> set ''+4'' \<and> js_trim (takeWhile (\<lambda>x. x \<noteq> CHR '':'') '' '') = [] \<and>
   js_is_int_literal (js_trim ''+4'') \<and>
   isPureOffset (parse_tz_token (''+4'' @ CHR '':'' # '' ''))"
proof -
  have h1: "CHR '':'' \<notin> set ''+4''" by simp
  have h2: "js_trim (takeWhile (\<lambda>x. x \<noteq> CHR '':'') '' '') = []" by (simp add: js_eval)
  have h3: "js_is_int_literal (js_trim ''+4'')" by (simp add: js_eval)
  have "isPureOffset (parse_tz_token ''+4'')"
    using parse_tz_token_bare_literal [OF h3] by (simp add: Let_def)
  then show ?thesis using parse_tz_token_empty_label [OF h1 h2 h3] h1 h2 h3 by simp
qed

text \<open>C13: a token without a colon that is not a bare integer is passed through,
  trimmed, as a location zone name, with no label.\<close>

theorem parse_tz_token_named:
  assumes "CHR '':'' \<notin> set tok" and "\<not> js_is_int_literal (js_trim tok)"
  shows "parse_tz_token tok = \<lparr>timezone = js_trim tok, customLabel = None, isPureOffset = False\<rparr>"
  using assms by (simp add: parse_tz_token_nonliteral split_label_no_colon)

theorem parse_tz_token_named_witness:
  "CHR '':'' \<notin> set '' America/Los_Angeles'' \<and> \<not> js_is_int_literal (js_trim '' America/Los_Angeles'') \<and>
   parse_tz_token '' America/Los_Angeles'' =
     \<lparr>timezone = ''America/Los_Angeles'', customLabel = None, isPureOffset = False\<rparr>"
proof -
  have h1: "CHR '':'' \<notin> set '' America/Los_Angeles''" by simp
  have h2: "\<not> js_is_int_literal (js_trim '' America/Los_Angeles'')" by (simp add: js_eval)
  show ?thesis using parse_tz_token_named [OF h1 h2] h1 h2 by (simp add: js_eval)
qed

text \<open>C14: every column the token parser produces satisfies the column invariant.\<close>

theorem parse_tz_token_column_ok: "column_ok (parse_tz_token tok)"
proof (cases "split_label (js_trim tok)")
  case (Pair zone label)
  show ?thesis
  proof (cases "js_is_int_literal zone")
    case True
    with Pair show ?thesis
      by (simp add: parse_tz_token_literal column_ok_def pure_label_offset_offset_label Let_def)
  next
    case False
    with Pair show ?thesis
      by (simp add: parse_tz_token_nonliteral column_ok_def)
  qed
qed

text \<open>C22: the label of a pure offset, without its \<^verbatim>\<open>UTC\<close> prefix, parses back to
  the same column as the offset written without a sign (\<^verbatim>\<open>UTC+0\<close> and \<^verbatim>\<open>0\<close> alike).\<close>

theorem offset_label_reparse:
  "parse_tz_token (drop 3 (offset_label (Some n))) = parse_tz_token (js_int_to_str n)"
proof -
  have l1: "js_is_int_literal (js_trim (drop 3 (offset_label (Some n))))"
    and v1: "int_literal_value (js_trim (drop 3 (offset_label (Some n)))) = n"
    using signed_int_to_str_literal [of n] signed_int_to_str_trim [of n]
    by (simp_all add: offset_label_Some)
  have t2: "js_trim (js_int_to_str n) = js_int_to_str n"
    using js_int_to_str_no_ws by (rule js_trim_id)
  have l2: "js_is_int_literal (js_trim (js_int_to_str n))"
    and v2: "int_literal_value (js_trim (js_int_to_str n)) = n"
    by (simp_all add: t2 js_int_to_str_literal int_literal_value_int_to_str)
  show ?thesis
    by (simp add: parse_tz_token_bare_literal [OF l1] parse_tz_token_bare_literal [OF l2] v1 v2)
qed

subsection \<open>Properties of the whole list\<close>

text \<open>C23: the number of columns is four without a parameter (or with an empty one) and
  otherwise one more than the number of commas: no token is dropped.\<close>

theorem getTimezones_length:
  "length (getTimezones p) =
     (case p of None \<Rightarrow> 4 | Some s \<Rightarrow> if s = [] then 4 else Suc (count_list s CHR '',''))"
  by (simp add: getTimezones_def default_timezones_def length_js_split split: option.splits)

text \<open>C15: an empty or blank token is not skipped: it becomes a column with the empty
  zone name.\<close>

theorem getTimezones_keeps_blank_token:
  assumes "s \<noteq> []" and "p \<in> set (js_split CHR '','' s)" and "js_trim p = []"
  shows "\<lparr>timezone = [], customLabel = None, isPureOffset = False\<rparr> \<in> set (getTimezones (Some s))"
proof -
  have "split_label (js_trim p) = ([], None)"
    using assms(3) by (simp add: split_label_def)
  moreover have "\<not> js_is_int_literal []" by (simp add: js_is_int_literal_def)
  ultimately have "parse_tz_token p = \<lparr>timezone = [], customLabel = None, isPureOffset = False\<rparr>"
    by (simp add: parse_tz_token_nonliteral)
  with assms(1,2) show ?thesis
    by (force simp: getTimezones_def)
qed

theorem getTimezones_keeps_blank_token_witness:
  "''Europe/London,'' \<noteq> [] \<and> '''' \<in> set (js_split CHR '','' ''Europe/London,'') \<and> js_trim '''' = [] \<and>
   \<lparr>timezone = [], customLabel = None, isPureOffset = False\<rparr> \<in> set (getTimezones (Some ''Europe/London,''))"
proof -
  have h1: "''Europe/London,'' \<noteq> []" by simp
  have h2: "'''' \<in> set (js_split CHR '','' ''Europe/London,'')" by simp
  have h3: "js_trim '''' = []" by (simp add: js_trim_def)
  show ?thesis using getTimezones_keeps_blank_token [OF h1 h2 h3] h1 h2 h3 by simp
qed

end
