(* ===== verification/JsDate.thy ===== *)
theory JsDate
  imports Prelude
begin

text \<open>
  The \<^verbatim>\<open>Date\<close> arithmetic of ECMA-262 (section "Date Objects") that
  \<^verbatim>\<open>renderTable\<close> relies on: a \<^verbatim>\<open>Date\<close> holds a time value (milliseconds since the
  epoch, UTC); its local getters read \<open>LocalTime(t)\<close>, its setters build a local time
  value with \<open>MakeDay\<close>/\<open>MakeTime\<close>/\<open>MakeDate\<close> and convert it back with \<open>UTC\<close>. The
  viewer's own time zone (the host's \<open>LocalTZA\<close>) is a record of two functions, so
  that daylight-saving changes are allowed. \<open>TimeClip\<close> (NaN outside
  \<open>\<plusminus>8.64e15\<close> ms) is not modelled: the program only handles dates near the present.
\<close>

subsection \<open>Time within a day\<close>

definition ms_per_day :: int where "ms_per_day = 86400000"
definition ms_per_hour :: int where "ms_per_hour = 3600000"
definition ms_per_minute :: int where "ms_per_minute = 60000"
definition ms_per_second :: int where "ms_per_second = 1000"

definition day_of :: "int \<Rightarrow> int" where
  "day_of t = t div ms_per_day"

definition time_within_day :: "int \<Rightarrow> int" where
  "time_within_day t = t mod ms_per_day"

definition hour_from_time :: "int \<Rightarrow> int" where
  "hour_from_time t = (t div ms_per_hour) mod 24"

definition min_from_time :: "int \<Rightarrow> int" where
  "min_from_time t = (t div ms_per_minute) mod 60"

definition sec_from_time :: "int \<Rightarrow> int" where
  "sec_from_time t = (t div ms_per_second) mod 60"

definition ms_from_time :: "int \<Rightarrow> int" where
  "ms_from_time t = t mod ms_per_second"

subsection \<open>Years, months and dates\<close>

definition day_from_year :: "int \<Rightarrow> int" where
  "day_from_year y = 365 * (y - 1970) + (y - 1969) div 4 - (y - 1901) div 100 + (y - 1601) div 400"

definition in_leap_year :: "int \<Rightarrow> bool" where
  "in_leap_year y \<longleftrightarrow> y mod 4 = 0 \<and> (y mod 100 \<noteq> 0 \<or> y mod 400 = 0)"

text \<open>\<open>YearFromTime\<close>: the largest year whose first day is not after day \<open>z\<close>. The
  mean Gregorian year (146097 days per 400 years) places it within one year of the
  estimate \<open>e\<close>; lemma \<open>year_from_day_bounds\<close> shows the choice right.\<close>

definition year_from_day :: "int \<Rightarrow> int" where
  "year_from_day z =
     (let e = 1970 + (400 * z) div 146097
      in if day_from_year (e + 1) \<le> z then e + 1 else if day_from_year e \<le> z then e else e - 1)"

definition year_from_time :: "int \<Rightarrow> int" where
  "year_from_time t = year_from_day (day_of t)"

definition day_within_year :: "int \<Rightarrow> int" where
  "day_within_year t = day_of t - day_from_year (year_from_time t)"

text \<open>The first day of month \<open>m\<close> (0 to 11) within a year.\<close>

definition month_start :: "bool \<Rightarrow> int \<Rightarrow> int" where
  "month_start leap m =
     [0, 31, 59, 90, 120, 151, 181, 212, 243, 273, 304, 334] ! nat m + (if leap \<and> 2 \<le> m then 1 else 0)"

definition month_from_time :: "int \<Rightarrow> int" where
  "month_from_time t =
     (let d = day_within_year t; l = (if in_leap_year (year_from_time t) then 1 else 0) in
      if d < 31 then 0 else if d < 59 + l then 1 else if d < 90 + l then 2
      else if d < 120 + l then 3 else if d < 151 + l then 4 else if d < 181 + l then 5
      else if d < 212 + l then 6 else if d < 243 + l then 7 else if d < 273 + l then 8
      else if d < 304 + l then 9 else if d < 334 + l then 10 else 11)"

definition date_from_time :: "int \<Rightarrow> int" where
  "date_from_time t =
     day_within_year t - month_start (in_leap_year (year_from_time t)) (month_from_time t) + 1"

subsection \<open>Building time values\<close>

definition make_time :: "int \<Rightarrow> int \<Rightarrow> int \<Rightarrow> int \<Rightarrow> int" where
  "make_time h m s ms = h * ms_per_hour + m * ms_per_minute + s * ms_per_second + ms"

definition make_day :: "int \<Rightarrow> int \<Rightarrow> int \<Rightarrow> int" where
  "make_day y m dt =
     (let ym = y + m div 12; mn = m mod 12 in day_from_year ym + month_start (in_leap_year ym) mn + dt - 1)"

definition make_date :: "int \<Rightarrow> int \<Rightarrow> int" where
  "make_date day time = day * ms_per_day + time"

subsection \<open>The viewer's time zone\<close>

text \<open>\<open>LocalTZA(t, true)\<close> for a UTC time value and \<open>LocalTZA(t, false)\<close> for a local
  one; they differ around daylight-saving transitions.\<close>

record local_frame =
  tza_utc :: "instant \<Rightarrow> int"
  tza_local :: "int \<Rightarrow> int"

definition local_time :: "local_frame \<Rightarrow> instant \<Rightarrow> int" where
  "local_time f t = t + tza_utc f t"

definition utc_of_local :: "local_frame \<Rightarrow> int \<Rightarrow> instant" where
  "utc_of_local f l = l - tza_local f l"

subsection \<open>The \<^verbatim>\<open>Date.prototype\<close> methods the program calls\<close>

definition js_get_hours :: "local_frame \<Rightarrow> instant \<Rightarrow> int" where
  "js_get_hours f t = hour_from_time (local_time f t)"

definition js_get_date :: "local_frame \<Rightarrow> instant \<Rightarrow> int" where
  "js_get_date f t = date_from_time (local_time f t)"

definition js_get_month :: "local_frame \<Rightarrow> instant \<Rightarrow> int" where
  "js_get_month f t = month_from_time (local_time f t)"

definition js_get_full_year :: "local_frame \<Rightarrow> instant \<Rightarrow> int" where
  "js_get_full_year f t = year_from_time (local_time f t)"

text \<open>\<^verbatim>\<open>d.setDate(dt)\<close>: the same local time of day on day \<open>dt\<close> of the local month
  (overflowing into the following months).\<close>

definition js_set_date :: "local_frame \<Rightarrow> instant \<Rightarrow> int \<Rightarrow> instant" where
  "js_set_date f t dt =
     (let l = local_time f t
      in utc_of_local f (make_date (make_day (year_from_time l) (month_from_time l) dt) (time_within_day l)))"

text \<open>\<^verbatim>\<open>d.setHours(h, m, s, ms)\<close> and \<^verbatim>\<open>d.setHours(h)\<close>, which keeps the local
  minutes, seconds and milliseconds.\<close>

definition js_set_hours4 :: "local_frame \<Rightarrow> instant \<Rightarrow> int \<Rightarrow> int \<Rightarrow> int \<Rightarrow> int \<Rightarrow> instant" where
  "js_set_hours4 f t h m s ms = (let l = local_time f t in utc_of_local f (make_date (day_of l) (make_time h m s ms)))"

definition js_set_hours :: "local_frame \<Rightarrow> instant \<Rightarrow> int \<Rightarrow> instant" where
  "js_set_hours f t h =
     (let l = local_time f t
      in utc_of_local f (make_date (day_of l) (make_time h (min_from_time l) (sec_from_time l) (ms_from_time l))))"

text \<open>A viewer's zone with a constant offset (no daylight-saving time).\<close>

definition fixed_frame :: "int \<Rightarrow> local_frame" where
  "fixed_frame off = \<lparr>tza_utc = (\<lambda>_. off), tza_local = (\<lambda>_. off)\<rparr>"

lemmas [js_eval] = ms_per_day_def ms_per_hour_def ms_per_minute_def ms_per_second_def day_of_def
  time_within_day_def hour_from_time_def min_from_time_def sec_from_time_def ms_from_time_def
  day_from_year_def in_leap_year_def year_from_day_def year_from_time_def day_within_year_def
  month_start_def month_from_time_def date_from_time_def make_time_def make_day_def make_date_def
  local_time_def utc_of_local_def js_get_hours_def js_get_date_def js_get_month_def js_get_full_year_def
  js_set_date_def js_set_hours4_def js_set_hours_def fixed_frame_def

subsection \<open>Lemmas: bounds\<close>

lemma hour_from_time_bounds: "0 \<le> hour_from_time t \<and> hour_from_time t < 24"
  by (simp add: hour_from_time_def)

text \<open>Bounds of \<open>day_from_year\<close> against the mean year, scaled by 400.\<close>

lemma day_from_year_scaled:
  "146097 * (y - 1970) - 607 < 400 * day_from_year y \<and> 400 * day_from_year y \<le> 146097 * (y - 1970) + 589"
proof -
  let ?a = "(y - 1969) div 4" and ?b = "(y - 1901) div 100" and ?c = "(y - 1601) div 400"
  have "4 * ?a \<le> y - 1969" "y - 1969 < 4 * ?a + 4" by linarith+
  moreover have "100 * ?b \<le> y - 1901" "y - 1901 < 100 * ?b + 100" by linarith+
  moreover have "400 * ?c \<le> y - 1601" "y - 1601 < 400 * ?c + 400" by linarith+
  ultimately show ?thesis by (simp add: day_from_year_def)
qed
lemma year_from_day_bounds:
  "day_from_year (year_from_day z) \<le> z \<and> z < day_from_year (year_from_day z + 1)"
proof -
  define e where "e = 1970 + (400 * z) div 146097"
  have q1: "146097 * (e - 1970) \<le> 400 * z" 
    unfolding e_def by simp
  have q2: "400 * z < 146097 * (e - 1970) + 146097"
    unfolding e_def by simp
  have lo: "day_from_year (e - 1) \<le> z"
    using day_from_year_scaled [of "e - 1"] q1 q2 by (simp add: algebra_simps)
  have hi: "z < day_from_year (e + 2)"
    using day_from_year_scaled [of "e + 2"] q1 q2 by (simp add: algebra_simps)
  have y: "year_from_day z = (if day_from_year (e + 1) \<le> z then e + 1 else if day_from_year e \<le> z then e else e - 1)"
    by (simp add: year_from_day_def e_def Let_def)
  show ?thesis
  proof (cases "day_from_year (e + 1) \<le> z")
    case True
    with hi show ?thesis by (simp add: y add.assoc)
  next
    case False
    with lo show ?thesis by (simp add: y)
  qed
qed

lemma mod_shift: "(x + k * d) mod d = (x::int) mod d"
  by (rule mod_mult_self1)

lemma mod_400_100: "(y::int) mod 400 = 0 \<Longrightarrow> y mod 100 = 0"
proof -
  assume "y mod 400 = 0"
  moreover have "y mod 400 mod 100 = y mod 100" by (rule mod_mod_cancel) simp
  ultimately show ?thesis by simp
qed

lemma mod_100_4: "(y::int) mod 100 = 0 \<Longrightarrow> y mod 4 = 0"
proof -
  assume "y mod 100 = 0"
  moreover have "y mod 100 mod 4 = y mod 4" by (rule mod_mod_cancel) simp
  ultimately show ?thesis by simp
qed

lemma day_from_year_Suc:
  "day_from_year (y + 1) = day_from_year y + (if in_leap_year y then 366 else 365)"
proof -
  have a: "(y + 1 - 1969) div 4 = (y - 1969) div 4 + (if y mod 4 = 0 then 1 else 0)"
  proof -
    have "y - 1969 + 1 = y + (-492) * 4" by simp
    then have "(y - 1969 + 1) mod 4 = y mod 4" by (simp only: mod_shift)
    then show ?thesis using div_succ [of 4 "y - 1969"] by (simp add: algebra_simps)
  qed
  have b: "(y + 1 - 1901) div 100 = (y - 1901) div 100 + (if y mod 100 = 0 then 1 else 0)"
  proof -
    have "y - 1901 + 1 = y + (-19) * 100" by simp
    then have "(y - 1901 + 1) mod 100 = y mod 100" by (simp only: mod_shift)
    then show ?thesis using div_succ [of 100 "y - 1901"] by (simp add: algebra_simps)
  qed
  have c: "(y + 1 - 1601) div 400 = (y - 1601) div 400 + (if y mod 400 = 0 then 1 else 0)"
  proof -
    have "y - 1601 + 1 = y + (-4) * 400" by simp
    then have "(y - 1601 + 1) mod 400 = y mod 400" by (simp only: mod_shift)
    then show ?thesis using div_succ [of 400 "y - 1601"] by (simp add: algebra_simps)
  qed
  define A where "A = (y - 1969) div 4"
  define B where "B = (y - 1901) div 100"
  define C where "C = (y - 1601) div 400"
  have d1: "day_from_year y = 365 * (y - 1970) + A - B + C"
    unfolding day_from_year_def A_def B_def C_def by (rule refl)
  have d2: "day_from_year (y + 1) = 365 * (y + 1 - 1970) + (A + (if y mod 4 = 0 then 1 else 0))
      - (B + (if y mod 100 = 0 then 1 else 0)) + (C + (if y mod 400 = 0 then 1 else 0))"
    unfolding day_from_year_def a b c A_def B_def C_def by (rule refl)
  show ?thesis
    using mod_400_100 [of y] mod_100_4 [of y] unfolding d1 d2 in_leap_year_def
    by (cases "y mod 4 = 0"; cases "y mod 100 = 0"; cases "y mod 400 = 0") simp_all
qed

lemma day_within_year_bounds:
  "0 \<le> day_within_year t \<and> day_within_year t < (if in_leap_year (year_from_time t) then 366 else 365)"
  using year_from_day_bounds [of "day_of t"] day_from_year_Suc [of "year_from_day (day_of t)"]
  by (simp add: day_within_year_def year_from_time_def)

lemma month_from_time_bounds: "0 \<le> month_from_time t \<and> month_from_time t \<le> 11"
  by (simp add: month_from_time_def Let_def)

subsection \<open>Lemmas: the date triple determines the day\<close>

lemma day_of_ymd:
  "day_of t = day_from_year (year_from_time t)
     + month_start (in_leap_year (year_from_time t)) (month_from_time t) + date_from_time t - 1"
  by (simp add: date_from_time_def day_within_year_def)

lemma ymd_eq_day_eq:
  assumes "year_from_time a = year_from_time b" and "month_from_time a = month_from_time b"
    and "date_from_time a = date_from_time b"
  shows "day_of a = day_of b"
  using assms day_of_ymd [of a] day_of_ymd [of b] by simp

lemma day_eq_ymd_eq:
  "day_of a = day_of b \<Longrightarrow>
     year_from_time a = year_from_time b \<and> month_from_time a = month_from_time b \<and> date_from_time a = date_from_time b"
  by (simp add: year_from_time_def month_from_time_def date_from_time_def day_within_year_def)

subsection \<open>Lemmas: the setters\<close>

lemma make_day_ymd:
  "make_day (year_from_time l) (month_from_time l) dt = day_of l + dt - date_from_time l"
proof -
  have "month_from_time l div 12 = 0" "month_from_time l mod 12 = month_from_time l"
    using month_from_time_bounds [of l] by simp_all
  then show ?thesis
    using day_of_ymd [of l] by (simp add: make_day_def Let_def)
qed

text \<open>\<^verbatim>\<open>d.setDate(d.getDate() + k)\<close> moves the local day by \<open>k\<close> and keeps the
  local time of day.\<close>

lemma js_set_date_add:
  "js_set_date f t (js_get_date f t + k) =
     utc_of_local f (make_date (day_of (local_time f t) + k) (time_within_day (local_time f t)))"
  by (simp add: js_set_date_def js_get_date_def make_day_ymd Let_def)

lemma js_set_hours4_midnight:
  "js_set_hours4 f t 0 0 0 0 = utc_of_local f (day_of (local_time f t) * ms_per_day)"
  by (simp add: js_set_hours4_def make_time_def make_date_def Let_def)

lemma make_time_from_parts:
  "make_time h (min_from_time l) (sec_from_time l) (ms_from_time l) = h * ms_per_hour + l mod ms_per_hour"
proof -
  have "l mod (60000 * 60) = 60000 * (l div 60000 mod 60) + l mod 60000"
    by (rule zmod_zmult2_eq) simp
  moreover have "l mod (1000 * 60) = 1000 * (l div 1000 mod 60) + l mod 1000"
    by (rule zmod_zmult2_eq) simp
  ultimately show ?thesis
    by (simp add: make_time_def min_from_time_def sec_from_time_def ms_from_time_def
        ms_per_hour_def ms_per_minute_def ms_per_second_def)
qed

lemma js_set_hours_eq:
  "js_set_hours f t h =
     utc_of_local f (day_of (local_time f t) * ms_per_day + h * ms_per_hour + local_time f t mod ms_per_hour)"
  by (simp add: js_set_hours_def make_date_def make_time_from_parts Let_def add.assoc)

lemma fixed_frame_exact: "local_time (fixed_frame off) (utc_of_local (fixed_frame off) l) = l"
  by (simp add: fixed_frame_def local_time_def utc_of_local_def)

lemma day_of_make_date:
  "0 \<le> r \<Longrightarrow> r < ms_per_day \<Longrightarrow> day_of (make_date d r) = d"
  by (simp add: day_of_def make_date_def ms_per_day_def)

lemma time_within_day_bounds: "0 \<le> time_within_day t \<and> time_within_day t < ms_per_day"
  by (simp add: time_within_day_def ms_per_day_def)

end
