(* ===== verification/CivilTime.thy ===== *)
theory CivilTime
  imports JsString JsDate
begin

text \<open>
  The Civil Time Service: the four wrappers of \<^verbatim>\<open>Intl.DateTimeFormat\<close> in
  src/script.js (\<^verbatim>\<open>getTimezoneAbbr\<close>, \<^verbatim>\<open>formatTime\<close>, \<^verbatim>\<open>getHourInTimezone\<close>,
  \<^verbatim>\<open>isWorkingHours\<close>, lines 47--84). \<^verbatim>\<open>Intl\<close> itself is a black box, the record
  \<open>intl_service\<close>: which zone names its constructor accepts (any other throws a
  \<^verbatim>\<open>RangeError\<close>, whatever the date) and what each formatter returns for a zone and a
  time value. The IANA fixed-offset zones \<^verbatim>\<open>Etc/GMT\<plusminus>h\<close> that the parser
  synthesises are tabulated from the tz database (\<open>etc_gmt_offset\<close>), and
  \<open>etc_intl\<close> is a deterministic service that resolves exactly those zones, the
  substitute for tests that the specification asks for.
\<close>

record intl_service =
  tz_supported :: "string \<Rightarrow> bool"
  fmt_hour_minute :: "string \<Rightarrow> instant \<Rightarrow> string"
  fmt_parts_short :: "string \<Rightarrow> instant \<Rightarrow> (string \<times> string) list"
  fmt_hour_numeric :: "string \<Rightarrow> instant \<Rightarrow> string"
  fmt_weekday_short :: "instant \<Rightarrow> string"
  fmt_month_short :: "instant \<Rightarrow> string"

text \<open>Lines 47--56: the \<^verbatim>\<open>timeZoneName\<close> part of \<^verbatim>\<open>formatToParts\<close>, or the empty
  string.\<close>

definition getTimezoneAbbr :: "intl_service \<Rightarrow> instant \<Rightarrow> string \<Rightarrow> string js_result" where
  "getTimezoneAbbr intl date timezone =
     (if \<not> tz_supported intl timezone then Inl (RangeError timezone)
      else (let parts = fmt_parts_short intl timezone date in
            case find (\<lambda>part. fst part = ''timeZoneName'') parts of
              Some tzPart \<Rightarrow> Inr (snd tzPart)
            | None \<Rightarrow> Inr ''''))"

text \<open>Lines 58--70.\<close>

definition formatTime :: "intl_service \<Rightarrow> instant \<Rightarrow> string \<Rightarrow> (string \<times> string) js_result" where
  "formatTime intl date timezone =
     (if \<not> tz_supported intl timezone then Inl (RangeError timezone)
      else (let time = fmt_hour_minute intl timezone date in
            case getTimezoneAbbr intl date timezone of
              Inl e \<Rightarrow> Inl e
            | Inr abbr \<Rightarrow> Inr (time, abbr)))"

text \<open>Lines 72--79: \<^verbatim>\<open>parseInt\<close> of the formatted hour (NaN if it is not numeric).\<close>

definition getHourInTimezone :: "intl_service \<Rightarrow> instant \<Rightarrow> string \<Rightarrow> js_number js_result" where
  "getHourInTimezone intl date timezone =
     (if \<not> tz_supported intl timezone then Inl (RangeError timezone)
      else Inr (js_parse_int (fmt_hour_numeric intl timezone date)))"

text \<open>Lines 81--84.\<close>

definition isWorkingHours :: "intl_service \<Rightarrow> instant \<Rightarrow> string \<Rightarrow> bool js_result" where
  "isWorkingHours intl date timezone =
     (case getHourInTimezone intl date timezone of
        Inl e \<Rightarrow> Inl e
      | Inr hour \<Rightarrow> Inr (js_ge hour 8 \<and> js_lt hour 19))"

subsection \<open>The IANA fixed-offset zones\<close>

text \<open>\<^verbatim>\<open>Etc/GMT+h\<close> is \<open>h\<close> hours behind UTC (for \<open>h\<close> up to 12) and
  \<^verbatim>\<open>Etc/GMT-h\<close> is \<open>h\<close> hours ahead (up to 14); \<^verbatim>\<open>Etc/GMT\<close> and \<^verbatim>\<open>Etc/GMT0\<close>
  are UTC. The value is the zone's offset from UTC in hours.\<close>

definition etc_gmt_zones :: "(string \<times> int) list" where
  "etc_gmt_zones =
     [(''Etc/GMT'', 0), (''Etc/GMT0'', 0)]
     @ map (\<lambda>h. (''Etc/GMT+'' @ js_int_to_str h, - h)) [0..12]
     @ map (\<lambda>h. (''Etc/GMT-'' @ js_int_to_str h, h)) [0..14]"

definition etc_gmt_offset :: "string \<Rightarrow> int option" where
  "etc_gmt_offset z = map_of etc_gmt_zones z"

subsection \<open>A deterministic service for the fixed-offset zones\<close>

definition two_digits :: "int \<Rightarrow> string" where
  "two_digits n = js_pad_start 2 CHR ''0'' (js_int_to_str n)"

definition gmt_abbr :: "int \<Rightarrow> string" where
  "gmt_abbr h = (if h = 0 then ''GMT'' else ''GMT'' @ (if 0 < h then ''+'' else '''') @ js_int_to_str h)"

definition weekday_names :: "string list" where
  "weekday_names = [''Thu'', ''Fri'', ''Sat'', ''Sun'', ''Mon'', ''Tue'', ''Wed'']"

definition month_names :: "string list" where
  "month_names = [''Jan'', ''Feb'', ''Mar'', ''Apr'', ''May'', ''Jun'', ''Jul'', ''Aug'', ''Sep'', ''Oct'', ''Nov'', ''Dec'']"

definition etc_intl :: intl_service where
  "etc_intl =
     \<lparr>tz_supported = (\<lambda>z. etc_gmt_offset z \<noteq> None),
      fmt_hour_minute = (\<lambda>z t. case etc_gmt_offset z of
          None \<Rightarrow> ''''
        | Some h \<Rightarrow> (let l = t + h * ms_per_hour in
                     two_digits (hour_from_time l) @ '':'' @ two_digits (min_from_time l))),
      fmt_parts_short = (\<lambda>z t. case etc_gmt_offset z of
          None \<Rightarrow> []
        | Some h \<Rightarrow> [(''hour'', two_digits (hour_from_time (t + h * ms_per_hour))), (''literal'', '' ''),
                     (''timeZoneName'', gmt_abbr h)]),
      fmt_hour_numeric = (\<lambda>z t. case etc_gmt_offset z of
          None \<Rightarrow> ''''
        | Some h \<Rightarrow> two_digits (hour_from_time (t + h * ms_per_hour))),
      fmt_weekday_short = (\<lambda>t. weekday_names ! nat (day_of t mod 7)),
      fmt_month_short = (\<lambda>t. month_names ! nat (month_from_time t))\<rparr>"

lemmas [js_eval] = getTimezoneAbbr_def formatTime_def getHourInTimezone_def isWorkingHours_def
  two_digits_def gmt_abbr_def

subsection \<open>Lemmas: the wrappers throw exactly for unsupported zones\<close>

lemma getTimezoneAbbr_unsupported:
  "\<not> tz_supported intl z \<Longrightarrow> getTimezoneAbbr intl d z = Inl (RangeError z)"
  by (simp add: getTimezoneAbbr_def)

lemma getTimezoneAbbr_supported: "tz_supported intl z \<Longrightarrow> \<exists>a. getTimezoneAbbr intl d z = Inr a"
  by (simp add: getTimezoneAbbr_def Let_def split: option.splits)

lemma formatTime_unsupported:
  "\<not> tz_supported intl z \<Longrightarrow> formatTime intl d z = Inl (RangeError z)"
  by (simp add: formatTime_def)

lemma formatTime_supported:
  "tz_supported intl z \<Longrightarrow> \<exists>a. formatTime intl d z = Inr (fmt_hour_minute intl z d, a)"
  using getTimezoneAbbr_supported [of intl z d] by (auto simp: formatTime_def Let_def)

lemma getHourInTimezone_unsupported:
  "\<not> tz_supported intl z \<Longrightarrow> getHourInTimezone intl d z = Inl (RangeError z)"
  by (simp add: getHourInTimezone_def)

lemma isWorkingHours_unsupported:
  "\<not> tz_supported intl z \<Longrightarrow> isWorkingHours intl d z = Inl (RangeError z)"
  by (simp add: isWorkingHours_def getHourInTimezone_def)

text \<open>The work-hours flag of a supported zone: the hour text read by \<^verbatim>\<open>parseInt\<close>
  lies in \<open>[8, 19)\<close>; a text that is not numeric gives \<open>False\<close>.\<close>

lemma isWorkingHours_supported:
  "tz_supported intl z \<Longrightarrow>
     isWorkingHours intl d z =
       Inr (case js_parse_int (fmt_hour_numeric intl z d) of None \<Rightarrow> False | Some h \<Rightarrow> 8 \<le> h \<and> h < 19)"
  by (simp add: isWorkingHours_def getHourInTimezone_def js_ge_def js_lt_def split: option.splits)

lemmas civil_time_unsupported = getTimezoneAbbr_unsupported formatTime_unsupported
  getHourInTimezone_unsupported isWorkingHours_unsupported

subsection \<open>Lemmas: the table of fixed-offset zones\<close>

lemma map_of_map_inj:
  "inj f \<Longrightarrow> map_of (map (\<lambda>x. (f x, g x)) xs) (f y) = (if y \<in> set xs then Some (g y) else None)"
  by (induction xs) (auto dest: injD)

lemma map_of_map_other:
  "(\<forall>x. k \<noteq> f x) \<Longrightarrow> map_of (map (\<lambda>x. (f x, g x)) xs) k = None"
  by (induction xs) auto

lemma inj_prefix_int_to_str: "inj (\<lambda>h. p @ js_int_to_str h)"
  by (rule injI) (simp add: js_int_to_str_inj)

lemma map_of_append_case:
  "map_of (xs @ ys) k = (case map_of xs k of None \<Rightarrow> map_of ys k | Some v \<Rightarrow> Some v)"
  by (simp add: map_add_def split: option.splits)

lemma etc_gmt_offset_plus:
  "etc_gmt_offset (''Etc/GMT+'' @ js_int_to_str h) = (if 0 \<le> h \<and> h \<le> 12 then Some (- h) else None)"
proof -
  let ?k = "''Etc/GMT+'' @ js_int_to_str h"
  have A: "map_of [(''Etc/GMT'', 0::int), (''Etc/GMT0'', 0)] ?k = None"
    by simp
  have B: "map_of (map (\<lambda>h. (''Etc/GMT+'' @ js_int_to_str h, - h)) [0..12]) ?k
        = (if h \<in> set [0..12] then Some (- h) else None)"
    by (rule map_of_map_inj [OF inj_prefix_int_to_str])
  have C: "map_of (map (\<lambda>h. (''Etc/GMT-'' @ js_int_to_str h, h)) [0..14]) ?k = None"
    by (rule map_of_map_other) simp
  show ?thesis
    unfolding etc_gmt_offset_def etc_gmt_zones_def map_of_append_case A B C
    by simp
qed

lemma etc_gmt_offset_minus:
  "etc_gmt_offset (''Etc/GMT-'' @ js_int_to_str h) = (if 0 \<le> h \<and> h \<le> 14 then Some h else None)"
proof -
  let ?k = "''Etc/GMT-'' @ js_int_to_str h"
  have A: "map_of [(''Etc/GMT'', 0::int), (''Etc/GMT0'', 0)] ?k = None"
    by simp
  have B: "map_of (map (\<lambda>h. (''Etc/GMT+'' @ js_int_to_str h, - h)) [0..12]) ?k = None"
    by (rule map_of_map_other) simp
  have C: "map_of (map (\<lambda>h. (''Etc/GMT-'' @ js_int_to_str h, h)) [0..14]) ?k
        = (if h \<in> set [0..14] then Some h else None)"
    by (rule map_of_map_inj [OF inj_prefix_int_to_str])
  show ?thesis
    unfolding etc_gmt_offset_def etc_gmt_zones_def map_of_append_case A B C
    by simp
qed

subsection \<open>Lemmas: the deterministic service\<close>

lemma two_digits_parse: "0 \<le> n \<Longrightarrow> js_parse_int (two_digits n) = Some n"
  by (simp add: two_digits_def js_parse_int_pad_start)

lemma etc_intl_supported: "tz_supported etc_intl z \<longleftrightarrow> etc_gmt_offset z \<noteq> None"
  by (simp add: etc_intl_def)

lemma etc_intl_hour:
  "etc_gmt_offset z = Some h \<Longrightarrow>
     getHourInTimezone etc_intl t z = Inr (Some (hour_from_time (t + h * ms_per_hour)))"
  using hour_from_time_bounds [of "t + h * ms_per_hour"]
  by (simp add: getHourInTimezone_def etc_intl_def two_digits_parse)

subsection \<open>Properties of the wrappers\<close>

text \<open>C17: each of the four wrappers throws exactly when the runtime does not support
  the zone, whatever the date, and what it throws is the \<^verbatim>\<open>RangeError\<close> naming that
  zone.\<close>

theorem intl_wrappers_throw_iff:
  "(isl (getTimezoneAbbr svc d z) \<longleftrightarrow> \<not> tz_supported svc z) \<and>
   (isl (formatTime svc d z) \<longleftrightarrow> \<not> tz_supported svc z) \<and>
   (isl (getHourInTimezone svc d z) \<longleftrightarrow> \<not> tz_supported svc z) \<and>
   (isl (isWorkingHours svc d z) \<longleftrightarrow> \<not> tz_supported svc z) \<and>
   (getTimezoneAbbr svc d z = Inl (RangeError z) \<longleftrightarrow> \<not> tz_supported svc z) \<and>
   (formatTime svc d z = Inl (RangeError z) \<longleftrightarrow> \<not> tz_supported svc z) \<and>
   (getHourInTimezone svc d z = Inl (RangeError z) \<longleftrightarrow> \<not> tz_supported svc z) \<and>
   (isWorkingHours svc d z = Inl (RangeError z) \<longleftrightarrow> \<not> tz_supported svc z)"
proof (cases "tz_supported svc z")
  case True
  then obtain a where "getTimezoneAbbr svc d z = Inr a" using getTimezoneAbbr_supported by blast
  moreover obtain b where "formatTime svc d z = Inr (fmt_hour_minute svc z d, b)"
    using True formatTime_supported by blast
  ultimately show ?thesis using True isWorkingHours_supported [OF True]
    by (simp add: getHourInTimezone_def)
next
  case False
  then show ?thesis by (simp add: civil_time_unsupported)
qed

text \<open>C24: the work-hours flag of a supported zone is true exactly when the hour the
  formatter reports, read by \<^verbatim>\<open>parseInt\<close>, lies in \<open>[8, 19)\<close>: 8 and 18 are working
  hours, 7 and 19 are not.\<close>

theorem isWorkingHours_window:
  assumes "tz_supported svc z" and "js_parse_int (fmt_hour_numeric svc z d) = Some h"
  shows "isWorkingHours svc d z = Inr (8 \<le> h \<and> h < 19)"
  using assms by (simp add: isWorkingHours_supported)

theorem isWorkingHours_window_witness:
  "tz_supported etc_intl ''Etc/GMT'' \<and>
   isWorkingHours (etc_intl\<lparr>fmt_hour_numeric := (\<lambda>_ _. ''08'')\<rparr>) 0 ''Etc/GMT'' = Inr True \<and>
   isWorkingHours (etc_intl\<lparr>fmt_hour_numeric := (\<lambda>_ _. ''18'')\<rparr>) 0 ''Etc/GMT'' = Inr True \<and>
   isWorkingHours (etc_intl\<lparr>fmt_hour_numeric := (\<lambda>_ _. ''07'')\<rparr>) 0 ''Etc/GMT'' = Inr False \<and>
   isWorkingHours (etc_intl\<lparr>fmt_hour_numeric := (\<lambda>_ _. ''19'')\<rparr>) 0 ''Etc/GMT'' = Inr False"
proof -
  have s: "tz_supported etc_intl ''Etc/GMT''"
    by (simp add: etc_intl_def etc_gmt_offset_def etc_gmt_zones_def)
  have s': "\<And>t. tz_supported (etc_intl\<lparr>fmt_hour_numeric := t\<rparr>) ''Etc/GMT''" using s by simp
  have p: "js_parse_int ''08'' = Some 8" "js_parse_int ''18'' = Some 18"
          "js_parse_int ''07'' = Some 7" "js_parse_int ''19'' = Some 19"
    by (simp_all add: js_eval)
  show ?thesis
    using s isWorkingHours_window [OF s'] p by simp
qed

end
