(* ===== verification/Grid.thy ===== *)
theory Grid
  imports Parser CivilTime
begin

text \<open>
  The Grid Builder: \<^verbatim>\<open>renderTable\<close> (src/script.js, lines 109--207) with the helpers
  it calls (\<^verbatim>\<open>getFriendlyLocation\<close>, \<^verbatim>\<open>formatDate\<close>, \<^verbatim>\<open>isToday\<close>, lines 86--107).
  The browser is a record: the \<^verbatim>\<open>Intl\<close> service, the viewer's time zone, and the clock,
  given as the sequence of values that successive \<^verbatim>\<open>new Date()\<close> calls return (the
  program reads it once for \<^verbatim>\<open>now\<close>, once per day in \<^verbatim>\<open>isToday\<close>, and once per
  labelled column per day for the header). The DOM the function builds is data: one
  \<open>day_section\<close> per \<^verbatim>\<open><details>\<close> element, with its header texts and its rows of
  cells. Rendering threads a \<open>render_state\<close> (the clock reads made so far and the
  container's children); an exception stops it and leaves the container as it was.
\<close>

record browser =
  intl :: intl_service
  frame :: local_frame
  clock :: "nat \<Rightarrow> instant"

subsection \<open>Helpers\<close>

text \<open>Lines 86--93.\<close>

definition getFriendlyLocation :: "string \<Rightarrow> string" where
  "getFriendlyLocation tz =
     (let parts = js_split CHR ''/'' tz in
      if 1 < length parts then map (\<lambda>c. if c = CHR ''_'' then CHR '' '' else c) (last parts)
      else tz)"

text \<open>Lines 95--100.\<close>

definition formatDate :: "browser \<Rightarrow> instant \<Rightarrow> string" where
  "formatDate b date =
     (let weekday = fmt_weekday_short (intl b) date;
          day = js_get_date (frame b) date;
          month = fmt_month_short (intl b) date
      in weekday @ '', '' @ js_int_to_str day @ '' '' @ month)"

text \<open>Lines 102--107; \<open>today\<close> is the value of the \<^verbatim>\<open>new Date()\<close> read inside.\<close>

definition isToday :: "local_frame \<Rightarrow> instant \<Rightarrow> instant \<Rightarrow> bool" where
  "isToday f today date \<longleftrightarrow>
     js_get_date f date = js_get_date f today \<and> js_get_month f date = js_get_month f today
     \<and> js_get_full_year f date = js_get_full_year f today"

subsection \<open>The DOM it builds\<close>

text \<open>A body cell: the time text, the abbreviation span (absent for a pure offset) and
  the \<^verbatim>\<open>working-hours\<close> class.\<close>

record td_cell =
  td_time :: string
  td_abbr :: "string option"
  td_working :: bool

definition td_inner_html :: "td_cell \<Rightarrow> string" where
  \<open>td_inner_html c =
     (case td_abbr c of
        None \<Rightarrow> ''<span class="time-display">'' @ td_time c @ ''</span>''
      | Some abbr \<Rightarrow> ''<span class="time-display">'' @ td_time c @ ''<span class="tz-abbr">'' @ abbr
                     @ ''</span></span>'')\<close>

record tr_row =
  row_label :: string
  row_cells :: "td_cell list"

record day_section =
  is_today_class :: bool
  is_open :: bool
  summary_text :: string
  header_texts :: "string list"
  body_rows :: "tr_row list"

record render_state =
  reads :: nat
  container :: "day_section list"

subsection \<open>One day\<close>

text \<open>Lines 116--118: local midnight \<open>dayOffset\<close> days after \<open>now\<close>.\<close>

definition day_date :: "local_frame \<Rightarrow> instant \<Rightarrow> nat \<Rightarrow> instant" where
  "day_date f now dayOffset =
     (let dayDate = js_set_date f now (js_get_date f now + int dayOffset) in js_set_hours4 f dayDate 0 0 0 0)"

text \<open>Lines 147--161: one header cell; a labelled column reads the clock for a sample
  date and asks for its abbreviation. The counter \<open>k\<close> is the index of the next read.\<close>

definition header_cell :: "browser \<Rightarrow> tz_column \<Rightarrow> nat \<Rightarrow> (string \<times> nat) js_result" where
  "header_cell b tzObj k =
     (if isPureOffset tzObj then Inr ((case customLabel tzObj of None \<Rightarrow> '''' | Some l \<Rightarrow> l), k)
      else (let sampleDate = clock b k in
            case getTimezoneAbbr (intl b) sampleDate (timezone tzObj) of
              Inl e \<Rightarrow> Inl e
            | Inr abbr \<Rightarrow>
                (let location = (case customLabel tzObj of
                                   Some l \<Rightarrow> if l \<noteq> [] then l else getFriendlyLocation (timezone tzObj)
                                 | None \<Rightarrow> getFriendlyLocation (timezone tzObj))
                 in Inr (abbr @ '' ('' @ location @ '')'', Suc k))))"

text \<open>Line 169.\<close>

definition start_hour :: "local_frame \<Rightarrow> instant \<Rightarrow> nat \<Rightarrow> int" where
  "start_hour f now dayOffset = (if dayOffset = 0 then js_get_hours f now else 0)"

text \<open>Line 178.\<close>

definition hour_label :: "int \<Rightarrow> string" where
  "hour_label hour = js_pad_start 2 CHR ''0'' (js_int_to_str hour) @ '':00''"

text \<open>Lines 181--197: one body cell.\<close>

definition body_cell :: "browser \<Rightarrow> instant \<Rightarrow> tz_column \<Rightarrow> td_cell js_result" where
  "body_cell b hourDate tzObj =
     (case formatTime (intl b) hourDate (timezone tzObj) of
        Inl e \<Rightarrow> Inl e
      | Inr (time, abbr) \<Rightarrow>
          (case isWorkingHours (intl b) hourDate (timezone tzObj) of
             Inl e \<Rightarrow> Inl e
           | Inr w \<Rightarrow> Inr \<lparr>td_time = time, td_abbr = (if isPureOffset tzObj then None else Some abbr),
                           td_working = w\<rparr>))"

text \<open>Lines 172--199: one row.\<close>

definition render_row :: "browser \<Rightarrow> tz_column list \<Rightarrow> instant \<Rightarrow> int \<Rightarrow> tr_row js_result" where
  "render_row b timezones dayDate hour =
     (let hourDate = js_set_hours (frame b) dayDate hour in
      case map_js (body_cell b hourDate) timezones of
        Inl e \<Rightarrow> Inl e
      | Inr cells \<Rightarrow> Inr \<lparr>row_label = hour_label hour, row_cells = cells\<rparr>)"

text \<open>Lines 116--205: the body of the day loop; \<open>k\<close> is the index of the next clock
  read, the one \<^verbatim>\<open>isToday\<close> makes.\<close>

definition render_day ::
  "browser \<Rightarrow> tz_column list \<Rightarrow> instant \<Rightarrow> nat \<Rightarrow> nat \<Rightarrow> (day_section \<times> nat) js_result" where
  "render_day b timezones now dayOffset k =
     (let dayDate = day_date (frame b) now dayOffset;
          today = isToday (frame b) (clock b k) dayDate;
          opened = (today \<or> dayOffset = 1);
          summary = formatDate b dayDate
      in case map_st (header_cell b) timezones (Suc k) of
           Inl e \<Rightarrow> Inl e
         | Inr (ths, k') \<Rightarrow>
             (case map_js (render_row b timezones dayDate) [start_hour (frame b) now dayOffset..23] of
                Inl e \<Rightarrow> Inl e
              | Inr rows \<Rightarrow>
                  Inr (\<lparr>is_today_class = today, is_open = opened, summary_text = summary,
                        header_texts = ''Time (local)'' # ths, body_rows = rows\<rparr>, k')))"

subsection \<open>The whole table\<close>

text \<open>Lines 115--206: the day loop. A day is appended to the container only once it is
  complete (line 205); an exception ends the loop with the container as it was.\<close>

fun render_days ::
  "browser \<Rightarrow> tz_column list \<Rightarrow> instant \<Rightarrow> nat list \<Rightarrow> render_state \<Rightarrow> js_error option \<times> render_state" where
  "render_days b timezones now [] st = (None, st)"
| "render_days b timezones now (dayOffset # ds) st =
     (case render_day b timezones now dayOffset (reads st) of
        Inl e \<Rightarrow> (Some e, st)
      | Inr (sec, k) \<Rightarrow>
          render_days b timezones now ds (st\<lparr>reads := k, container := container st @ [sec]\<rparr>))"

text \<open>Lines 109--207: the exception raised, if any, and the children of the container
  (emptied first, line 112). The clock's read 0 is \<^verbatim>\<open>now\<close>.\<close>

definition renderTable :: "browser \<Rightarrow> string option \<Rightarrow> js_error option \<times> day_section list" where
  "renderTable b tzParam =
     (let timezones = getTimezones tzParam;
          now = clock b 0
      in case render_days b timezones now [0..<15] \<lparr>reads = 1, container = []\<rparr> of
           (err, st) \<Rightarrow> (err, container st))"

subsection \<open>The values the rendering computes\<close>

text \<open>What a successful rendering computes, written without exceptions or the
  read counter: the number of header clock reads per day (one per labelled column),
  and the value of a cell, a row, a header cell and a whole day.\<close>

definition labelled_count :: "tz_column list \<Rightarrow> nat" where
  "labelled_count tzs = length (filter (\<lambda>t. \<not> isPureOffset t) tzs)"

definition cell_value :: "intl_service \<Rightarrow> instant \<Rightarrow> tz_column \<Rightarrow> td_cell" where
  "cell_value svc hourDate tzObj =
     \<lparr>td_time = fmt_hour_minute svc (timezone tzObj) hourDate,
      td_abbr = (if isPureOffset tzObj then None
                 else Some (case find (\<lambda>part. fst part = ''timeZoneName'') (fmt_parts_short svc (timezone tzObj) hourDate) of
                              Some p \<Rightarrow> snd p | None \<Rightarrow> '''')),
      td_working = (case js_parse_int (fmt_hour_numeric svc (timezone tzObj) hourDate) of
                      None \<Rightarrow> False | Some h \<Rightarrow> 8 \<le> h \<and> h < 19)\<rparr>"

definition row_value :: "browser \<Rightarrow> tz_column list \<Rightarrow> instant \<Rightarrow> int \<Rightarrow> tr_row" where
  "row_value b tzs dayDate hour =
     \<lparr>row_label = hour_label hour, row_cells = map (cell_value (intl b) (js_set_hours (frame b) dayDate hour)) tzs\<rparr>"

definition header_value :: "browser \<Rightarrow> tz_column \<Rightarrow> nat \<Rightarrow> string" where
  "header_value b tzObj k =
     (if isPureOffset tzObj then (case customLabel tzObj of None \<Rightarrow> '''' | Some l \<Rightarrow> l)
      else (case find (\<lambda>part. fst part = ''timeZoneName'') (fmt_parts_short (intl b) (timezone tzObj) (clock b k)) of
              Some p \<Rightarrow> snd p | None \<Rightarrow> '''')
           @ '' ('' @ (case customLabel tzObj of
                         Some l \<Rightarrow> if l \<noteq> [] then l else getFriendlyLocation (timezone tzObj)
                       | None \<Rightarrow> getFriendlyLocation (timezone tzObj)) @ '')'')"

fun header_values :: "browser \<Rightarrow> tz_column list \<Rightarrow> nat \<Rightarrow> string list" where
  "header_values b [] k = []"
| "header_values b (tz # tzs) k =
     header_value b tz k # header_values b tzs (if isPureOffset tz then k else Suc k)"

definition section_value :: "browser \<Rightarrow> tz_column list \<Rightarrow> instant \<Rightarrow> nat \<Rightarrow> nat \<Rightarrow> day_section" where
  "section_value b tzs now dayOffset k =
     (let dayDate = day_date (frame b) now dayOffset;
          today = isToday (frame b) (clock b k) dayDate
      in \<lparr>is_today_class = today, is_open = (today \<or> dayOffset = 1), summary_text = formatDate b dayDate,
          header_texts = ''Time (local)'' # header_values b tzs (Suc k),
          body_rows = map (row_value b tzs dayDate) [start_hour (frame b) now dayOffset..23]\<rparr>)"

text \<open>A browser for examples: the \<^verbatim>\<open>Etc/GMT\<close> service, the viewer in UTC, and a
  given clock.\<close>

definition etc_browser :: "(nat \<Rightarrow> instant) \<Rightarrow> browser" where
  "etc_browser c = \<lparr>intl = etc_intl, frame = fixed_frame 0, clock = c\<rparr>"

lemmas [js_eval] = getFriendlyLocation_def formatDate_def isToday_def td_inner_html_def day_date_def
  header_cell_def start_hour_def hour_label_def body_cell_def render_row_def render_day_def
  etc_browser_def


subsection \<open>Lemmas: the cells, rows and days\<close>

lemma header_cell_fails:
  "(\<exists>e. header_cell b tz k = Inl e) \<longleftrightarrow> \<not> isPureOffset tz \<and> \<not> tz_supported (intl b) (timezone tz)"
  by (auto simp: header_cell_def getTimezoneAbbr_def Let_def split: option.splits)

lemma header_cell_reads:
  "header_cell b tz k = Inr (s, k') \<Longrightarrow> k' = (if isPureOffset tz then k else Suc k)"
  by (auto simp: header_cell_def Let_def split: sum.splits if_splits)

lemma header_cells_reads:
  "map_st (header_cell b) tzs k = Inr (ths, k') \<Longrightarrow> k' = k + labelled_count tzs"
proof (induction tzs arbitrary: k ths)
  case Nil
  then show ?case by (simp add: labelled_count_def)
next
  case (Cons tz tzs)
  from Cons.prems obtain s k1 ths' where h: "header_cell b tz k = Inr (s, k1)"
    and r: "map_st (header_cell b) tzs k1 = Inr (ths', k')"
    by (auto split: sum.splits prod.splits)
  from r have "k' = k1 + labelled_count tzs" by (rule Cons.IH)
  with header_cell_reads [OF h] show ?case
    by (simp add: labelled_count_def)
qed

lemma header_cell_ok:
  "tz_supported (intl b) (timezone tz) \<Longrightarrow>
     header_cell b tz k = Inr (header_value b tz k, if isPureOffset tz then k else Suc k)"
  by (simp add: header_cell_def header_value_def getTimezoneAbbr_def Let_def split: option.splits)

lemma header_cells_ok:
  "\<forall>tz\<in>set tzs. tz_supported (intl b) (timezone tz) \<Longrightarrow>
     map_st (header_cell b) tzs k = Inr (header_values b tzs k, k + labelled_count tzs)"
  by (induction tzs arbitrary: k) (simp_all add: header_cell_ok labelled_count_def)

lemma header_cells_fail:
  assumes "tz \<in> set tzs" "\<not> isPureOffset tz" "\<not> tz_supported (intl b) (timezone tz)"
  shows "\<exists>e. map_st (header_cell b) tzs k = Inl e"
  using assms by (subst map_st_Inl_iff) (auto simp: header_cell_fails)

lemma body_cell_ok:
  "tz_supported (intl b) (timezone tz) \<Longrightarrow> body_cell b d tz = Inr (cell_value (intl b) d tz)"
  by (simp add: body_cell_def formatTime_def getTimezoneAbbr_def isWorkingHours_def getHourInTimezone_def
      cell_value_def js_ge_def js_lt_def Let_def split: option.splits)

lemma body_cell_fails:
  "\<not> tz_supported (intl b) (timezone tz) \<Longrightarrow> body_cell b d tz = Inl (RangeError (timezone tz))"
  by (simp add: body_cell_def formatTime_def)

lemma render_row_ok:
  assumes "\<forall>tz\<in>set tzs. tz_supported (intl b) (timezone tz)"
  shows "render_row b tzs dd h =
       Inr \<lparr>row_label = hour_label h, row_cells = map (cell_value (intl b) (js_set_hours (frame b) dd h)) tzs\<rparr>"
proof -
  have "map_js (body_cell b (js_set_hours (frame b) dd h)) tzs
        = Inr (map (cell_value (intl b) (js_set_hours (frame b) dd h)) tzs)"
    by (rule map_js_map) (simp add: body_cell_ok assms)
  then show ?thesis by (simp add: render_row_def)
qed

lemma render_row_fails:
  "tz \<in> set tzs \<Longrightarrow> \<not> tz_supported (intl b) (timezone tz) \<Longrightarrow> \<exists>e. render_row b tzs dd h = Inl e"
proof -
  assume "tz \<in> set tzs" "\<not> tz_supported (intl b) (timezone tz)"
  then have "\<exists>e. map_js (body_cell b (js_set_hours (frame b) dd h)) tzs = Inl e"
    by (subst map_js_Inl_iff) (auto dest: body_cell_fails)
  then show ?thesis by (auto simp: render_row_def Let_def)
qed

lemma start_hour_bounds: "0 \<le> start_hour f now d \<and> start_hour f now d \<le> 23"
  using hour_from_time_bounds [of "local_time f now"] by (simp add: start_hour_def js_get_hours_def)

lemma hours_not_Nil: "[start_hour f now d..23] \<noteq> []"
  using start_hour_bounds [of f now d] by simp

lemma render_day_ok:
  assumes ok: "\<forall>tz\<in>set tzs. tz_supported (intl b) (timezone tz)"
  shows "render_day b tzs now d k = Inr (section_value b tzs now d k, Suc k + labelled_count tzs)"
proof -
  let ?dd = "day_date (frame b) now d"
  have "map_js (render_row b tzs ?dd) [start_hour (frame b) now d..23]
        = Inr (map (row_value b tzs ?dd) [start_hour (frame b) now d..23])"
    by (rule map_js_map) (simp add: render_row_ok [OF ok] row_value_def)
  then show ?thesis
    using header_cells_ok [OF ok, of "Suc k"]
    by (simp add: render_day_def section_value_def Let_def)
qed

lemma render_day_fails:
  assumes "tz \<in> set tzs" and "\<not> tz_supported (intl b) (timezone tz)"
  shows "\<exists>e. render_day b tzs now d k = Inl e"
proof (cases "map_st (header_cell b) tzs (Suc k)")
  case (Inl e)
  then show ?thesis by (simp add: render_day_def Let_def)
next
  case (Inr r)
  have "start_hour (frame b) now d \<in> set [start_hour (frame b) now d..23]"
    using start_hour_bounds [of "frame b" now d] by simp
  moreover have "\<exists>e. render_row b tzs (day_date (frame b) now d) (start_hour (frame b) now d) = Inl e"
    using assms by (rule render_row_fails)
  ultimately have "\<exists>e. map_js (render_row b tzs (day_date (frame b) now d)) [start_hour (frame b) now d..23] = Inl e"
    by (subst map_js_Inl_iff) blast
  with Inr show ?thesis by (auto simp: render_day_def Let_def split: prod.splits)
qed

lemma render_days_ok:
  assumes ok: "\<forall>tz\<in>set tzs. tz_supported (intl b) (timezone tz)"
  shows "render_days b tzs now ds st =
           (None, st\<lparr>reads := reads st + length ds * Suc (labelled_count tzs),
                     container := container st @
                        map (\<lambda>i. section_value b tzs now (ds ! i) (reads st + i * Suc (labelled_count tzs)))
                          [0..<length ds]\<rparr>)"
proof (induction ds arbitrary: st)
  case Nil
  then show ?case by simp
next
  case (Cons d ds)
  let ?n = "Suc (labelled_count tzs)"
  let ?st = "st\<lparr>reads := reads st + ?n, container := container st @ [section_value b tzs now d (reads st)]\<rparr>"
  have "render_days b tzs now (d # ds) st = render_days b tzs now ds ?st"
    by (simp add: render_day_ok [OF ok])
  also have "\<dots> = (None, ?st\<lparr>reads := reads ?st + length ds * ?n,
        container := container ?st @ map (\<lambda>i. section_value b tzs now (ds ! i) (reads ?st + i * ?n)) [0..<length ds]\<rparr>)"
    by (rule Cons.IH)
  finally show ?case
    by (simp add: map_upt_Suc algebra_simps del: upt_Suc)
qed

lemma render_days_fails:
  assumes "tz \<in> set tzs" and "\<not> tz_supported (intl b) (timezone tz)" and "ds \<noteq> []"
  shows "\<exists>e. render_days b tzs now ds st = (Some e, st)"
proof -
  obtain d ds' where ds: "ds = d # ds'" using assms(3) by (cases ds) auto
  obtain e where "render_day b tzs now d (reads st) = Inl e"
    using render_day_fails [OF assms(1,2)] by blast
  with ds show ?thesis by simp
qed

lemma header_cell_Inl: "header_cell b tz k = Inl e \<Longrightarrow> \<not> tz_supported (intl b) (timezone tz) \<and> e = RangeError (timezone tz)"
  by (auto simp: header_cell_def getTimezoneAbbr_def Let_def split: if_splits option.splits sum.splits)

lemma body_cell_Inl: "body_cell b d tz = Inl e \<Longrightarrow> \<not> tz_supported (intl b) (timezone tz) \<and> e = RangeError (timezone tz)"
  by (cases "tz_supported (intl b) (timezone tz)") (simp_all add: body_cell_ok body_cell_fails)

lemma render_day_Inl:
  "render_day b tzs now d k = Inl e \<Longrightarrow> \<exists>tz\<in>set tzs. \<not> tz_supported (intl b) (timezone tz) \<and> e = RangeError (timezone tz)"
  by (auto simp: render_day_def render_row_def Let_def split: sum.splits prod.splits
           dest!: map_st_Inl_D map_js_Inl_D header_cell_Inl body_cell_Inl)

lemma render_days_Some:
  "render_days b tzs now ds st = (Some e, st') \<Longrightarrow>
     st' = st \<and> (\<exists>tz\<in>set tzs. \<not> tz_supported (intl b) (timezone tz) \<and> e = RangeError (timezone tz))"
proof (induction ds arbitrary: st)
  case Nil
  then show ?case by simp
next
  case (Cons d ds)
  show ?case
  proof (cases "render_day b tzs now d (reads st)")
    case (Inl e')
    with Cons.prems show ?thesis by (auto dest: render_day_Inl)
  next
    case (Inr r)
    obtain sec k where r: "r = (sec, k)" by (cases r)
    with Inr Cons.prems have "render_days b tzs now ds (st\<lparr>reads := k, container := container st @ [sec]\<rparr>) = (Some e, st')"
      by simp
    then have "\<exists>tz\<in>set tzs. \<not> tz_supported (intl b) (timezone tz)"
      using Cons.IH by blast
    then obtain tz where "tz \<in> set tzs" "\<not> tz_supported (intl b) (timezone tz)" by blast
    then have "\<exists>e. render_day b tzs now d (reads st) = Inl e" by (rule render_day_fails)
    with Inr show ?thesis by simp
  qed
qed

lemma renderTable_ok:
  assumes "\<forall>tz\<in>set (getTimezones p). tz_supported (intl b) (timezone tz)"
  shows "renderTable b p =
           (None, map (\<lambda>i. section_value b (getTimezones p) (clock b 0) i
                              (Suc (i * Suc (labelled_count (getTimezones p))))) [0..<15])"
  using render_days_ok [OF assms, of "clock b 0" "[0..<15]" "\<lparr>reads = 1, container = []\<rparr>"]
  by (simp add: renderTable_def del: upt_Suc)

lemma renderTable_Some:
  "renderTable b p = (Some e, cs) \<Longrightarrow>
     cs = [] \<and> (\<exists>tz\<in>set (getTimezones p). \<not> tz_supported (intl b) (timezone tz) \<and> e = RangeError (timezone tz))"
  by (auto simp: renderTable_def split: prod.splits dest: render_days_Some)

lemma renderTable_None:
  "renderTable b p = (None, cs) \<Longrightarrow> \<forall>tz\<in>set (getTimezones p). tz_supported (intl b) (timezone tz)"
proof (rule ccontr)
  assume r: "renderTable b p = (None, cs)" and "\<not> (\<forall>tz\<in>set (getTimezones p). tz_supported (intl b) (timezone tz))"
  then obtain tz where tz: "tz \<in> set (getTimezones p)" "\<not> tz_supported (intl b) (timezone tz)" by blast
  have ne: "[0..<15] \<noteq> ([] :: nat list)" by simp
  obtain e where "render_days b (getTimezones p) (clock b 0) [0..<15] \<lparr>reads = 1, container = []\<rparr>
      = (Some e, \<lparr>reads = 1, container = []\<rparr>)"
    using render_days_fails [OF tz ne] by blast
  with r show False by (simp add: renderTable_def)
qed

lemma renderTable_None_sections:
  "renderTable b p = (None, cs) \<Longrightarrow>
     cs = map (\<lambda>i. section_value b (getTimezones p) (clock b 0) i
                      (Suc (i * Suc (labelled_count (getTimezones p))))) [0..<15]"
  using renderTable_ok [OF renderTable_None] by simp

subsection \<open>Lemmas: which day is today\<close>

lemma isToday_iff_day: "isToday f today date \<longleftrightarrow> day_of (local_time f date) = day_of (local_time f today)"
  by (auto simp: isToday_def js_get_date_def js_get_month_def js_get_full_year_def
           intro: ymd_eq_day_eq dest: day_eq_ymd_eq)

lemma day_date_day:
  assumes frame: "\<forall>l. day_of (local_time f (utc_of_local f l)) = day_of l"
  shows "day_of (local_time f (day_date f now d)) = day_of (local_time f now) + int d"
proof -
  let ?L = "local_time f now"
  have d1: "day_of (local_time f (js_set_date f now (js_get_date f now + int d))) = day_of ?L + int d"
    using frame time_within_day_bounds [of ?L] by (simp add: js_set_date_add day_of_make_date)
  show ?thesis
    using frame d1 by (simp add: day_date_def js_set_hours4_midnight Let_def day_of_def ms_per_day_def)
qed

lemma section_value_today:
  assumes "\<forall>l. day_of (local_time (frame b) (utc_of_local (frame b) l)) = day_of l"
  shows "is_today_class (section_value b tzs now d k) \<longleftrightarrow>
           day_of (local_time (frame b) (clock b k)) = day_of (local_time (frame b) now) + int d"
  using day_date_day [OF assms] by (auto simp: section_value_def isToday_iff_day Let_def)

lemma renderTable_fails:
  "tz \<in> set (getTimezones p) \<Longrightarrow> \<not> tz_supported (intl b) (timezone tz) \<Longrightarrow> \<exists>e. renderTable b p = (Some e, [])"
  by (cases "renderTable b p") (metis option.exhaust renderTable_None renderTable_Some)

lemma renderTable_sections_nth:
  "renderTable b p = (None, cs) \<Longrightarrow> i < 15 \<Longrightarrow>
     cs ! i = section_value b (getTimezones p) (clock b 0) i (Suc (i * Suc (labelled_count (getTimezones p))))"
  by (drule renderTable_None_sections) (simp del: upt_Suc)

lemma header_values_length: "length (header_values b tzs k) = length tzs"
  by (induction tzs arbitrary: k) simp_all

lemma header_values_nth:
  "j < length tzs \<Longrightarrow> header_values b tzs k ! j = header_value b (tzs ! j) (k + labelled_count (take j tzs))"
proof (induction tzs arbitrary: k j)
  case Nil
  then show ?case by simp
next
  case (Cons tz tzs)
  then show ?case by (cases j) (simp_all add: labelled_count_def)
qed

lemma etc_browser_simps [simp]:
  "intl (etc_browser c) = etc_intl" "frame (etc_browser c) = fixed_frame 0" "clock (etc_browser c) = c"
  by (simp_all add: etc_browser_def)

lemma fixed_frame_day:
  "\<forall>l. day_of (local_time (fixed_frame off) (utc_of_local (fixed_frame off) l)) = day_of l"
  by (simp add: fixed_frame_exact)

lemma getFriendlyLocation_eq:
  "getFriendlyLocation tz =
     (if CHR ''/'' \<in> set tz then map (\<lambda>c. if c = CHR ''_'' then CHR '' '' else c) (rev (takeWhile (\<lambda>c. c \<noteq> CHR ''/'') (rev tz)))
      else tz)"
  by (simp add: getFriendlyLocation_def last_js_split length_js_split count_list_0_iff Let_def)

lemma header_values_map:
  "header_values b tzs k = map (\<lambda>j. header_value b (tzs ! j) (k + labelled_count (take j tzs))) [0..<length tzs]"
  by (rule nth_equalityI) (simp_all add: header_values_length header_values_nth)

lemma day_date_eq:
  assumes frame: "\<forall>l. day_of (local_time f (utc_of_local f l)) = day_of l"
  shows "day_date f now d = utc_of_local f ((day_of (local_time f now) + int d) * ms_per_day)"
proof -
  have "day_of (local_time f (js_set_date f now (js_get_date f now + int d))) = day_of (local_time f now) + int d"
    using frame time_within_day_bounds [of "local_time f now"] by (simp add: js_set_date_add day_of_make_date)
  then show ?thesis by (simp add: day_date_def js_set_hours4_midnight Let_def)
qed

subsection \<open>Lemmas: concrete inputs\<close>

lemma tzs_plus2_blank:
  "getTimezones (Some ''+2,'') =
     [\<lparr>timezone = ''Etc/GMT-2'', customLabel = Some ''UTC+2'', isPureOffset = True\<rparr>,
      \<lparr>timezone = '''', customLabel = None, isPureOffset = False\<rparr>]"
  by (simp add: getTimezones_def parse_tz_token_def js_eval Let_def)

lemma tzs_zero:
  "getTimezones (Some ''0'') = [\<lparr>timezone = ''Etc/GMT+0'', customLabel = Some ''UTC+0'', isPureOffset = True\<rparr>]"
  by (simp add: getTimezones_def parse_tz_token_def js_eval Let_def)

lemma etc_zone_ok: "etc_gmt_offset ''Etc/GMT-2'' = Some 2" "etc_gmt_offset ''Etc/GMT+0'' = Some 0"
proof -
  have "''Etc/GMT-2'' = ''Etc/GMT-'' @ js_int_to_str 2" "''Etc/GMT+0'' = ''Etc/GMT+'' @ js_int_to_str 0"
    by (simp_all add: js_eval)
  then show "etc_gmt_offset ''Etc/GMT-2'' = Some 2" "etc_gmt_offset ''Etc/GMT+0'' = Some 0"
    using etc_gmt_offset_minus [of 2] etc_gmt_offset_plus [of 0] by simp_all
qed

lemma etc_zone_empty: "etc_gmt_offset '''' = None"
  by (auto simp: etc_gmt_offset_def etc_gmt_zones_def map_of_eq_None_iff)

lemma day_date_fixed_example: "day_date (fixed_frame 0) 0 3 = 3 * ms_per_day"
  using day_date_eq [OF fixed_frame_day [of 0], of 0 3]
  by (simp add: fixed_frame_def local_time_def utc_of_local_def day_of_def)

lemma set_hours_fixed_example: "js_set_hours (fixed_frame 0) (3 * ms_per_day) 5 = 3 * ms_per_day + 5 * ms_per_hour"
  by (simp add: js_set_hours_eq fixed_frame_def local_time_def utc_of_local_def day_of_def ms_per_day_def
      ms_per_hour_def)

lemma etc_hour_minute_example: "fmt_hour_minute etc_intl ''Etc/GMT+0'' (3 * ms_per_day + 5 * ms_per_hour) = ''05:00''"
  by (simp add: etc_intl_def etc_zone_ok hour_from_time_def min_from_time_def ms_per_day_def ms_per_hour_def
      ms_per_minute_def two_digits_def js_pad_start_def js_int_to_str_def dec_string.simps digit_char_simps)

subsection \<open>Properties of the rendering\<close>

text \<open>C1: when rendering throws, the exception is the \<^verbatim>\<open>RangeError\<close> of a column whose
  zone the runtime does not support, and the container is left empty: no day, not
  even the ones before the failing cell, is shown.\<close>

theorem renderTable_error_empty:
  assumes "renderTable b p = (Some e, cs)"
  shows "cs = [] \<and> (\<exists>tz\<in>set (getTimezones p). \<not> tz_supported (intl b) (timezone tz) \<and> e = RangeError (timezone tz))"
  using renderTable_Some [OF assms] .

theorem renderTable_error_empty_witness:
  "renderTable (etc_browser (\<lambda>_. 0)) (Some ''+2,'') = (Some (RangeError ''''), [])"
proof -
  let ?blank = "\<lparr>timezone = '''', customLabel = None, isPureOffset = False\<rparr>"
  have u: "\<not> tz_supported (intl (etc_browser (\<lambda>_. 0))) (timezone ?blank)"
    by (simp add: etc_intl_supported etc_zone_empty)
  have m: "?blank \<in> set (getTimezones (Some ''+2,''))" by (simp add: tzs_plus2_blank)
  obtain e where r: "renderTable (etc_browser (\<lambda>_. 0)) (Some ''+2,'') = (Some e, [])"
    using renderTable_fails [OF m u] by blast
  have "\<exists>tz\<in>set (getTimezones (Some ''+2,'')). \<not> tz_supported (intl (etc_browser (\<lambda>_. 0))) (timezone tz)
          \<and> e = RangeError (timezone tz)"
    using renderTable_error_empty [OF r] by blast
  then have "e = RangeError ''''"
    by (auto simp: tzs_plus2_blank etc_intl_supported etc_zone_ok)
  with r show ?thesis by simp
qed

text \<open>C5: when every column's zone is supported, rendering does not throw and shows
  fifteen days.\<close>

theorem renderTable_fifteen_days:
  assumes "\<forall>tz\<in>set (getTimezones p). tz_supported (intl b) (timezone tz)"
  shows "\<exists>cs. renderTable b p = (None, cs) \<and> length cs = 15"
  using renderTable_ok [OF assms] by simp

theorem renderTable_fifteen_days_witness:
  "\<exists>cs. renderTable (etc_browser (\<lambda>_. 0)) (Some ''0'') = (None, cs) \<and> length cs = 15"
proof -
  have h: "\<forall>tz\<in>set (getTimezones (Some ''0'')). tz_supported (intl (etc_browser (\<lambda>_. 0))) (timezone tz)"
    by (simp add: tzs_zero etc_intl_supported etc_zone_ok)
  show ?thesis using renderTable_fifteen_days [OF h] by blast
qed

text \<open>C8: day \<open>i\<close> has one row per hour from its first hour to 23, labelled
  \<^verbatim>\<open>HH:00\<close>: the first day starts at the current local hour, the others at midnight,
  so the first day has \<open>24 - h\<close> rows and the others 24.\<close>

theorem renderTable_rows:
  assumes "renderTable b p = (None, cs)" and "i < 15"
  shows "map row_label (body_rows (cs ! i)) =
           map hour_label [(if i = 0 then js_get_hours (frame b) (clock b 0) else 0)..23] \<and>
         int (length (body_rows (cs ! i))) = (if i = 0 then 24 - js_get_hours (frame b) (clock b 0) else 24)"
  using renderTable_sections_nth [OF assms] start_hour_bounds [of "frame b" "clock b 0" 0]
  by (simp add: section_value_def row_value_def start_hour_def Let_def comp_def)

theorem renderTable_rows_witness:
  "renderTable (etc_browser (\<lambda>_. 0)) (Some ''0'') = (None, snd (renderTable (etc_browser (\<lambda>_. 0)) (Some ''0''))) \<and>
   (0::nat) < 15 \<and> length (body_rows (snd (renderTable (etc_browser (\<lambda>_. 0)) (Some ''0'')) ! 0)) = 24"
proof -
  have ok: "\<forall>tz\<in>set (getTimezones (Some ''0'')). tz_supported (intl (etc_browser (\<lambda>_. 0))) (timezone tz)"
    by (simp add: tzs_zero etc_intl_supported etc_zone_ok)
  have r: "renderTable (etc_browser (\<lambda>_. 0)) (Some ''0'') = (None, snd (renderTable (etc_browser (\<lambda>_. 0)) (Some ''0'')))"
    using renderTable_ok [OF ok] by simp
  have z: "js_get_hours (fixed_frame 0) 0 = 0"
    by (simp add: js_eval)
  show ?thesis using renderTable_rows [OF r, of 0] r z by simp
qed

text \<open>C9: row \<open>j\<close> of day \<open>i\<close> is the hour \<open>s + j\<close>, \<open>s\<close> the day's start hour: its
  label is that hour's label, and its cells are, column by column in order, the
  formatter's output at the instant \<^verbatim>\<open>setHours(s + j)\<close> of the day's date (the time
  text, the abbreviation unless the column is a pure offset, and the working-hours
  class of the hour the formatter reports).\<close>

theorem renderTable_cells:
  assumes r: "renderTable b p = (None, cs)" and i: "i < 15" and j: "j < length (body_rows (cs ! i))"
  shows "row_label (body_rows (cs ! i) ! j) = hour_label (start_hour (frame b) (clock b 0) i + int j) \<and>
         row_cells (body_rows (cs ! i) ! j) =
           map (cell_value (intl b) (js_set_hours (frame b) (day_date (frame b) (clock b 0) i)
                                         (start_hour (frame b) (clock b 0) i + int j)))
               (getTimezones p)"
proof -
  let ?s = "start_hour (frame b) (clock b 0) i"
  have rows: "body_rows (cs ! i) = map (row_value b (getTimezones p) (day_date (frame b) (clock b 0) i)) [?s..23]"
    using renderTable_sections_nth [OF r i] by (simp add: section_value_def Let_def)
  with j have "j < length [?s..23]" by simp
  then have "[?s..23] ! j = ?s + int j" by (simp add: nth_upto)
  with rows j show ?thesis by (simp add: row_value_def)
qed

theorem renderTable_cells_witness:
  "td_time (hd (row_cells (body_rows (snd (renderTable (etc_browser (\<lambda>_. 0)) (Some ''0'')) ! 3) ! 5))) = ''05:00''"
proof -
  let ?b = "etc_browser (\<lambda>_. 0)" and ?cs = "snd (renderTable (etc_browser (\<lambda>_. 0)) (Some ''0''))"
  have ok: "\<forall>tz\<in>set (getTimezones (Some ''0'')). tz_supported (intl ?b) (timezone tz)"
    by (simp add: tzs_zero etc_intl_supported etc_zone_ok)
  have r: "renderTable ?b (Some ''0'') = (None, ?cs)"
    using renderTable_ok [OF ok] by simp
  have i: "(3::nat) < 15" by simp
  have s: "start_hour (fixed_frame 0) 0 3 = 0" by (simp add: start_hour_def)
  have "length (body_rows (?cs ! 3)) = 24"
    using renderTable_sections_nth [OF r i] by (simp add: section_value_def Let_def s)
  then have j: "5 < length (body_rows (?cs ! 3))" by simp
  show ?thesis
    using renderTable_cells [OF r i j] s day_date_fixed_example set_hours_fixed_example etc_hour_minute_example
    by (simp add: tzs_zero cell_value_def)
qed

text \<open>C6: day \<open>i\<close> is marked today exactly when the clock read its \<^verbatim>\<open>isToday\<close> call
  makes (read \<open>1 + i * (1 + l)\<close>, \<open>l\<close> the number of labelled columns) falls on the
  local day \<open>i\<close> days after \<open>now\<close>; it is open when it is today or it is tomorrow.
  This holds for a viewer zone in which local midnight exists on every day.\<close>

theorem renderTable_today:
  assumes frame: "\<forall>l. day_of (local_time (frame b) (utc_of_local (frame b) l)) = day_of l"
    and r: "renderTable b p = (None, cs)" and i: "i < 15"
  shows "(is_today_class (cs ! i) \<longleftrightarrow>
            day_of (local_time (frame b) (clock b (Suc (i * Suc (labelled_count (getTimezones p))))))
              = day_of (local_time (frame b) (clock b 0)) + int i) \<and>
         (is_open (cs ! i) \<longleftrightarrow> is_today_class (cs ! i) \<or> i = 1)"
  using section_value_today [OF frame] renderTable_sections_nth [OF r i]
  by (simp add: section_value_def Let_def)

theorem renderTable_today_witness:
  "(\<forall>l. day_of (local_time (frame (etc_browser (\<lambda>_. 0))) (utc_of_local (frame (etc_browser (\<lambda>_. 0))) l)) = day_of l) \<and>
   renderTable (etc_browser (\<lambda>_. 0)) (Some ''0'') = (None, snd (renderTable (etc_browser (\<lambda>_. 0)) (Some ''0''))) \<and>
   (2::nat) < 15 \<and> \<not> is_today_class (snd (renderTable (etc_browser (\<lambda>_. 0)) (Some ''0'')) ! 2)"
proof -
  have f: "\<forall>l. day_of (local_time (frame (etc_browser (\<lambda>_. 0))) (utc_of_local (frame (etc_browser (\<lambda>_. 0))) l)) = day_of l"
    using fixed_frame_day by simp
  have ok: "\<forall>tz\<in>set (getTimezones (Some ''0'')). tz_supported (intl (etc_browser (\<lambda>_. 0))) (timezone tz)"
    by (simp add: tzs_zero etc_intl_supported etc_zone_ok)
  have r: "renderTable (etc_browser (\<lambda>_. 0)) (Some ''0'') = (None, snd (renderTable (etc_browser (\<lambda>_. 0)) (Some ''0'')))"
    using renderTable_ok [OF ok] by simp
  show ?thesis using renderTable_today [OF f r, of 2] f r by simp
qed

text \<open>C2: if every clock read of a rendering falls on the local day of \<open>now\<close>, the
  table has exactly one day marked today, the first, and exactly two open days, the
  first two.\<close>

theorem renderTable_one_today:
  assumes frame: "\<forall>l. day_of (local_time (frame b) (utc_of_local (frame b) l)) = day_of l"
    and r: "renderTable b p = (None, cs)"
    and same: "\<forall>k \<le> 15 * Suc (labelled_count (getTimezones p)).
                 day_of (local_time (frame b) (clock b k)) = day_of (local_time (frame b) (clock b 0))"
  shows "length cs = 15 \<and> (\<forall>i<15. is_today_class (cs ! i) \<longleftrightarrow> i = 0) \<and> (\<forall>i<15. is_open (cs ! i) \<longleftrightarrow> i \<le> 1)"
proof -
  let ?n = "Suc (labelled_count (getTimezones p))"
  have len: "length cs = 15" using renderTable_None_sections [OF r] by simp
  have today: "is_today_class (cs ! i) \<longleftrightarrow> i = 0" if i: "i < 15" for i
  proof -
    have "Suc (i * ?n) \<le> 15 * ?n"
      using i mult_le_mono1 [of i 14 ?n] by simp
    then have "day_of (local_time (frame b) (clock b (Suc (i * ?n)))) = day_of (local_time (frame b) (clock b 0))"
      using same by blast
    then show ?thesis
      using section_value_today [OF frame] renderTable_sections_nth [OF r i] by simp
  qed
  have "is_open (cs ! i) \<longleftrightarrow> i \<le> 1" if i: "i < 15" for i
    using today [OF i] renderTable_sections_nth [OF r i] by (auto simp: section_value_def Let_def)
  with len today show ?thesis by blast
qed

theorem renderTable_one_today_witness:
  "is_today_class (snd (renderTable (etc_browser (\<lambda>_. 0)) (Some ''0'')) ! 0) \<and>
   \<not> is_today_class (snd (renderTable (etc_browser (\<lambda>_. 0)) (Some ''0'')) ! 1) \<and>
   is_open (snd (renderTable (etc_browser (\<lambda>_. 0)) (Some ''0'')) ! 1) \<and>
   \<not> is_open (snd (renderTable (etc_browser (\<lambda>_. 0)) (Some ''0'')) ! 2)"
proof -
  have f: "\<forall>l. day_of (local_time (frame (etc_browser (\<lambda>_. 0))) (utc_of_local (frame (etc_browser (\<lambda>_. 0))) l)) = day_of l"
    using fixed_frame_day by simp
  have ok: "\<forall>tz\<in>set (getTimezones (Some ''0'')). tz_supported (intl (etc_browser (\<lambda>_. 0))) (timezone tz)"
    by (simp add: tzs_zero etc_intl_supported etc_zone_ok)
  have r: "renderTable (etc_browser (\<lambda>_. 0)) (Some ''0'') = (None, snd (renderTable (etc_browser (\<lambda>_. 0)) (Some ''0'')))"
    using renderTable_ok [OF ok] by simp
  have s: "\<forall>k \<le> 15 * Suc (labelled_count (getTimezones (Some ''0''))).
       day_of (local_time (frame (etc_browser (\<lambda>_. 0))) (clock (etc_browser (\<lambda>_. 0)) k))
       = day_of (local_time (frame (etc_browser (\<lambda>_. 0))) (clock (etc_browser (\<lambda>_. 0)) 0))"
    by simp
  show ?thesis using renderTable_one_today [OF f r s] by simp
qed

text \<open>C7: the midnight race. Rendering reads the clock again for each day's
  \<^verbatim>\<open>isToday\<close> instead of using \<open>now\<close>. Whenever the read of day 0 is still on the
  local day of \<open>now\<close> but local midnight has passed before the read of day 1, both
  day 0 and day 1 are marked today, against the law that exactly one day is.\<close>

theorem renderTable_midnight_race:
  assumes frame: "\<forall>l. day_of (local_time (frame b) (utc_of_local (frame b) l)) = day_of l"
    and r: "renderTable b p = (None, cs)"
    and d0: "day_of (local_time (frame b) (clock b 1)) = day_of (local_time (frame b) (clock b 0))"
    and d1: "day_of (local_time (frame b) (clock b (Suc (Suc (labelled_count (getTimezones p))))))
               = day_of (local_time (frame b) (clock b 0)) + 1"
  shows "is_today_class (cs ! 0) \<and> is_today_class (cs ! 1)"
proof -
  have "is_today_class (cs ! 0)"
    using section_value_today [OF frame] renderTable_sections_nth [OF r, of 0] d0 by simp
  moreover have "is_today_class (cs ! 1)"
    using section_value_today [OF frame] renderTable_sections_nth [OF r, of 1] d1 by simp
  ultimately show ?thesis ..
qed

theorem renderTable_midnight_race_witness:
  "is_today_class (snd (renderTable (etc_browser (\<lambda>k. if k \<le> 1 then ms_per_day - 1 else ms_per_day)) (Some ''0'')) ! 0) \<and>
   is_today_class (snd (renderTable (etc_browser (\<lambda>k. if k \<le> 1 then ms_per_day - 1 else ms_per_day)) (Some ''0'')) ! 1)"
proof -
  let ?b = "etc_browser (\<lambda>k. if k \<le> 1 then ms_per_day - 1 else ms_per_day)"
  have ok: "\<forall>tz\<in>set (getTimezones (Some ''0'')). tz_supported (intl ?b) (timezone tz)"
    by (simp add: tzs_zero etc_intl_supported etc_zone_ok)
  have r: "renderTable ?b (Some ''0'') = (None, snd (renderTable ?b (Some ''0'')))"
    using renderTable_ok [OF ok] by simp
  have lc: "labelled_count (getTimezones (Some ''0'')) = 0"
    by (simp add: tzs_zero labelled_count_def)
  have f: "\<forall>l. day_of (local_time (frame ?b) (utc_of_local (frame ?b) l)) = day_of l"
    using fixed_frame_day by simp
  have d0: "day_of (local_time (frame ?b) (clock ?b 1)) = day_of (local_time (frame ?b) (clock ?b 0))"
    by simp
  have d1: "day_of (local_time (frame ?b) (clock ?b (Suc (Suc (labelled_count (getTimezones (Some ''0'')))))))
               = day_of (local_time (frame ?b) (clock ?b 0)) + 1"
    by (simp add: lc js_eval)
  show ?thesis using renderTable_midnight_race [OF f r d0 d1] .
qed

text \<open>C18: the header of every day is \<^verbatim>\<open>Time (local)\<close> followed by one cell per
  column, in order: the label for a pure offset, and for any other column the
  abbreviation the formatter gives at a fresh clock read (not at the day's date)
  followed by the location in parentheses.\<close>

theorem renderTable_headers:
  assumes r: "renderTable b p = (None, cs)" and i: "i < 15"
  shows "header_texts (cs ! i) = ''Time (local)'' #
           map (\<lambda>j. header_value b (getTimezones p ! j)
                       (Suc (Suc (i * Suc (labelled_count (getTimezones p))))
                        + labelled_count (take j (getTimezones p)))) [0..<length (getTimezones p)]"
  using renderTable_sections_nth [OF r i] by (simp add: section_value_def Let_def header_values_map)

theorem renderTable_headers_witness:
  "renderTable (etc_browser (\<lambda>_. 0)) (Some ''0'') = (None, snd (renderTable (etc_browser (\<lambda>_. 0)) (Some ''0''))) \<and>
   (5::nat) < 15 \<and> header_texts (snd (renderTable (etc_browser (\<lambda>_. 0)) (Some ''0'')) ! 5) = [''Time (local)'', ''UTC+0'']"
proof -
  have ok: "\<forall>tz\<in>set (getTimezones (Some ''0'')). tz_supported (intl (etc_browser (\<lambda>_. 0))) (timezone tz)"
    by (simp add: tzs_zero etc_intl_supported etc_zone_ok)
  have r: "renderTable (etc_browser (\<lambda>_. 0)) (Some ''0'') = (None, snd (renderTable (etc_browser (\<lambda>_. 0)) (Some ''0'')))"
    using renderTable_ok [OF ok] by simp
  show ?thesis using renderTable_headers [OF r, of 5] r by (simp add: tzs_zero header_value_def)
qed

text \<open>C21: the location shown for a zone name with a slash is its last path segment,
  with underscores turned into spaces: it has neither a slash nor an underscore.\<close>

theorem getFriendlyLocation_last_segment:
  assumes "CHR ''/'' \<in> set tz"
  shows "getFriendlyLocation tz =
           map (\<lambda>c. if c = CHR ''_'' then CHR '' '' else c) (rev (takeWhile (\<lambda>c. c \<noteq> CHR ''/'') (rev tz))) \<and>
         CHR ''/'' \<notin> set (getFriendlyLocation tz) \<and> CHR ''_'' \<notin> set (getFriendlyLocation tz)"
  using assms by (auto simp: getFriendlyLocation_eq dest: set_takeWhileD)

theorem getFriendlyLocation_last_segment_witness:
  "CHR ''/'' \<in> set ''America/Los_Angeles'' \<and> getFriendlyLocation ''America/Los_Angeles'' = ''Los Angeles''"
proof -
  have h: "CHR ''/'' \<in> set ''America/Los_Angeles''" by simp
  show ?thesis using getFriendlyLocation_last_segment [OF h] h by simp
qed

text \<open>C20: the row label of an hour 0..23 is exactly its two decimal digits, the tens
  digit first and zero for a single-digit hour, followed by \<^verbatim>\<open>:00\<close>; its first two
  characters parse back to the hour.\<close>

theorem hour_label_digits:
  assumes "0 \<le> h" and "h \<le> 23"
  shows "hour_label h = [digit_char (nat h div 10), digit_char (nat h mod 10), CHR '':'', CHR ''0'', CHR ''0'']
         \<and> js_parse_int (take 2 (hour_label h)) = Some h"
proof -
  have p: "js_pad_start 2 CHR ''0'' (js_int_to_str h) = [digit_char (nat h div 10), digit_char (nat h mod 10)]"
    using assms pad2_dec_string [of "nat h"] by (simp add: js_int_to_str_def)
  have "js_parse_int (js_pad_start 2 CHR ''0'' (js_int_to_str h)) = Some h"
    using js_parse_int_pad_start [OF assms(1)] .
  with p show ?thesis by (simp add: hour_label_def)
qed

theorem hour_label_digits_witness:
  "hour_label 7 = ''07:00'' \<and> js_parse_int (take 2 (hour_label 7)) = Some 7"
proof -
  have h1: "0 \<le> (7::int)" and h2: "(7::int) \<le> 23" by simp_all
  have a: "hour_label 7 = [digit_char (nat 7 div 10), digit_char (nat 7 mod 10), CHR '':'', CHR ''0'', CHR ''0'']"
    and b: "js_parse_int (take 2 (hour_label 7)) = Some 7"
    using hour_label_digits [OF h1 h2] by blast+
  have "hour_label 7 = ''07:00''" using a by (simp add: digit_char_simps)
  with b show ?thesis by blast
qed

text \<open>C19: the date of day \<open>i\<close> (lines 116--118) is the local midnight \<open>i\<close> days after
  the local day of \<open>now\<close>, in a viewer zone where the conversion of local times keeps
  them on their day and local midnight exists.\<close>

theorem day_date_midnight:
  assumes frame: "\<forall>l. day_of (local_time f (utc_of_local f l)) = day_of l"
    and midnight: "\<forall>D. local_time f (utc_of_local f (D * ms_per_day)) = D * ms_per_day"
  shows "local_time f (day_date f now i) = (day_of (local_time f now) + int i) * ms_per_day"
  using midnight by (simp add: day_date_eq [OF frame])

theorem day_date_midnight_witness:
  "(\<forall>l. day_of (local_time (fixed_frame 3600000) (utc_of_local (fixed_frame 3600000) l)) = day_of l) \<and>
   (\<forall>D. local_time (fixed_frame 3600000) (utc_of_local (fixed_frame 3600000) (D * ms_per_day)) = D * ms_per_day) \<and>
   local_time (fixed_frame 3600000) (day_date (fixed_frame 3600000) 90000000 2) = 3 * ms_per_day"
proof -
  have h1: "\<forall>l. day_of (local_time (fixed_frame 3600000) (utc_of_local (fixed_frame 3600000) l)) = day_of l"
    by (rule fixed_frame_day)
  have h2: "\<forall>D. local_time (fixed_frame 3600000) (utc_of_local (fixed_frame 3600000) (D * ms_per_day)) = D * ms_per_day"
    by (simp add: fixed_frame_exact)
  have "day_of (local_time (fixed_frame 3600000) 90000000) = 1" by (simp add: js_eval)
  then show ?thesis using day_date_midnight [OF h1 h2, of 90000000 2] h1 h2 by simp
qed

end
