(* ===== verification/Spec2Isabelle.thy ===== *)
theory Spec2Isabelle
  imports Grid
begin

text \<open>
  \<^bold>\<open>A verification development of the timezone viewer (src/script.js).\<close>

  \<^bold>\<open>The program.\<close> One script, run once on page load (line 208). \<^verbatim>\<open>getTimezones\<close>
  (lines 2--45) reads the \<^verbatim>\<open>tz\<close> query parameter and turns each comma-separated token
  into a column \<open>{timezone, customLabel, isPureOffset}\<close>: a bare integer \<open>n\<close> becomes
  the fixed-offset IANA zone \<^verbatim>\<open>Etc/GMT\<close> with the sign of \<open>n\<close> inverted and the label
  \<^verbatim>\<open>UTC\<plusminus>n\<close>; anything else is a zone name; a colon introduces a custom label.
  \<^verbatim>\<open>renderTable\<close> (lines 109--207) then builds fifteen collapsible days, each a header
  row and one row per hour with one cell per column. Every zone-aware value comes from
  \<^verbatim>\<open>Intl.DateTimeFormat\<close> through four wrappers (lines 47--84); the current time comes
  from \<^verbatim>\<open>new Date()\<close>, which the script reads once for \<open>now\<close>, once per day inside
  \<^verbatim>\<open>isToday\<close> (lines 102--107), and once per labelled column per day for the header.
  The constructor of \<^verbatim>\<open>Intl.DateTimeFormat\<close> throws a \<^verbatim>\<open>RangeError\<close> for a zone it
  does not know; nothing catches it, so rendering stops there.

  \<^bold>\<open>The theories.\<close>
  \<^item> \<open>Prelude\<close>: the time value type, the exception (\<open>js_error\<close>, one constructor
    \<open>RangeError\<close>), results as \<open>js_error + 'a\<close>, and the two loop combinators:
    \<open>map_js\<close> (a \<^verbatim>\<open>forEach\<close>/\<^verbatim>\<open>map\<close> that stops at the first throw) and \<open>map_st\<close> (the
    same loop threading the number of clock reads made so far).
  \<^item> \<open>JsString\<close>: the string and number built-ins the parser calls, from ECMA-262:
    \<open>js_trim\<close>, \<open>js_split\<close>, \<open>js_pad_start\<close>, the regular expression
    \<^verbatim>\<open>/^[+-]?\d+$/\<close> (\<open>js_is_int_literal\<close>), \<open>js_parse_int\<close>, \<open>js_int_to_str\<close>;
    lemmas on splitting and trimming, and the round trip of integer printing and parsing.
  \<^item> \<open>JsDate\<close>: the time-value arithmetic of ECMA-262 (Day, YearFromTime,
    MonthFromTime, DateFromTime, MakeDay, MakeTime, MakeDate) and the methods the
    script calls (\<^verbatim>\<open>getHours\<close>, \<^verbatim>\<open>getDate\<close>, \<^verbatim>\<open>setDate\<close>, \<^verbatim>\<open>setHours\<close>, ...). The
    viewer's time zone is a \<open>local_frame\<close>, the two offset functions LocalTZA of the
    standard; nothing is assumed about them except where a theorem says so.
  \<^item> \<open>Parser\<close>: \<open>getTimezones\<close> with the per-token function \<open>parse_tz_token\<close> and its
    parts (\<open>split_label\<close> for lines 10--16, \<open>iana_timezone\<close> for lines 22--23,
    \<open>offset_label\<close> for line 27), the column record \<open>tz_column\<close> and its invariant
    \<open>column_ok\<close>.
  \<^item> \<open>CivilTime\<close>: \<^verbatim>\<open>Intl\<close> as the record \<open>intl_service\<close> (which zones the
    constructor accepts, what each formatter returns), the wrappers
    \<open>getTimezoneAbbr\<close>, \<open>formatTime\<close>, \<open>getHourInTimezone\<close>, \<open>isWorkingHours\<close>,
    the tz database's \<^verbatim>\<open>Etc/GMT\<close> zones (\<open>etc_gmt_offset\<close>) and \<open>etc_intl\<close>, a
    deterministic service for exactly those zones used in the examples.
  \<^item> \<open>Grid\<close>: the browser (\<open>intl\<close>, \<open>frame\<close>, and \<open>clock k\<close>, the value of the
    \<open>k\<close>-th \<^verbatim>\<open>new Date()\<close>), the helpers \<open>getFriendlyLocation\<close>, \<open>formatDate\<close>,
    \<open>isToday\<close>, and \<open>renderTable\<close> composed as the code composes it: \<open>render_days\<close>
    (the day loop, threading \<open>render_state\<close>: reads made and the container's
    children), \<open>render_day\<close> (one iteration), \<open>header_cell\<close> (the header
    callback), \<open>render_row\<close> and \<open>body_cell\<close> (the hour loop and the cell callback),
    \<open>day_date\<close>, \<open>start_hour\<close>, \<open>hour_label\<close>. The DOM is data: \<open>day_section\<close>,
    \<open>tr_row\<close>, \<open>td_cell\<close>. The pure functions \<open>section_value\<close>, \<open>row_value\<close>,
    \<open>cell_value\<close>, \<open>header_values\<close> state what each day is when nothing throws.
  \<^item> \<open>Spec2Isabelle\<close> (this theory): properties that span the parser, the
    \<^verbatim>\<open>Etc/GMT\<close> zones and the renderer.

  \<^bold>\<open>What is proved.\<close> For the parser: the result of each kind of token (bare
  integer, labelled, named, empty label), the column invariant, the number of columns,
  the label round trip, and that blank tokens are kept. For the wrappers: they throw
  exactly for unsupported zones, and the work-hours window \<open>[8, 19)\<close>. For rendering:
  it throws exactly when some column's zone is unsupported and then shows no day at
  all, and otherwise shows fifteen days (both as closed forms of the loop,
  \<open>renderTable_ok\<close> and \<open>renderTable_Some\<close>); the rows of each day, their exact
  zero-padded labels, and each row's cells as the formatter's output at
  \<^verbatim>\<open>setHours\<close> of that hour on the day's date; each header; which day is today, as a
  function of the clock read its \<^verbatim>\<open>isToday\<close> makes; that exactly one day is today
  when every read falls on the day of \<open>now\<close>, and that day 0 and day 1 are both today
  whenever midnight passes between their two reads; local midnight of each day. Across
  components: the synthesized zone of a bare integer \<open>n\<close> is the IANA zone of offset
  \<open>n\<close> for \<open>-12 \<le> n \<le> 14\<close>, the work-hours flag of such a column end to end, and
  that larger offsets empty the page.

  \<^bold>\<open>Hypotheses.\<close> Statements about days use a viewer zone in which converting a
  local time to UTC and back keeps it on its day, and (for the midnight theorem) in
  which local midnight exists; both hold for every zone whose daylight-saving
  transitions avoid midnight, and for the fixed zones \<open>fixed_frame\<close> used in the
  examples. No fuel or bound is needed: every loop of the script is over a finite list
  (the tokens, the columns, the hours \<open>[start..23]\<close>, the days \<open>[0..<15]\<close>), so each is a
  structural recursion and total.

  \<^bold>\<open>Not modelled.\<close> URL decoding of the parameter (lines 3--4; \<open>getTimezones\<close>
  takes the decoded value, \<open>None\<close> for an absent one); the DOM element API, CSS and
  the \<^verbatim>\<open>innerHTML\<close> parser (the model records the texts, classes, open flags and
  children order the code sets); the internals of \<^verbatim>\<open>Intl\<close> beyond the
  \<^verbatim>\<open>Etc/GMT\<close> table; \<^verbatim>\<open>TimeClip\<close> and invalid dates (all dates the script makes are
  finite and in range); numbers beyond \<open>2^53\<close> in \<^verbatim>\<open>parseInt\<close>; characters beyond
  8 bits.
\<close>

subsection \<open>Lemmas across components\<close>

lemma iana_timezone_offset:
  "etc_gmt_offset (iana_timezone (Some (- n))) = (if -12 \<le> n \<and> n \<le> 14 then Some n else None)"
proof (cases "n \<le> 0")
  case True
  then show ?thesis using etc_gmt_offset_plus [of "- n"] by (simp add: iana_timezone_Some)
next
  case False
  then have "iana_timezone (Some (- n)) = ''Etc/GMT-'' @ js_int_to_str n"
    by (simp add: iana_timezone_Some js_int_to_str_def)
  with False show ?thesis using etc_gmt_offset_minus [of n] by simp
qed

lemma iana_timezone_prefix: "take 7 (iana_timezone (Some m)) = ''Etc/GMT''"
  by (simp add: iana_timezone_Some)

lemma getTimezones_mem:
  "s \<noteq> [] \<Longrightarrow> tok \<in> set (js_split CHR '','' s) \<Longrightarrow> parse_tz_token tok \<in> set (getTimezones (Some s))"
  by (simp add: getTimezones_def)

subsection \<open>Properties across components\<close>

text \<open>C4: the sign inversion of the pure offsets is right: the column of a bare integer
  \<open>n\<close> names the IANA zone whose offset from UTC is \<open>n\<close> hours, for every \<open>n\<close> from
  -12 to 14; outside that range it names a zone that does not exist.\<close>

theorem pure_offset_zone:
  assumes "js_is_int_literal (js_trim tok)"
  shows "etc_gmt_offset (timezone (parse_tz_token tok)) =
           (let n = int_literal_value (js_trim tok) in if -12 \<le> n \<and> n \<le> 14 then Some n else None)"
  using parse_tz_token_bare_literal [OF assms] iana_timezone_offset by (simp add: Let_def)

theorem pure_offset_zone_witness:
  "js_is_int_literal (js_trim ''-5'') \<and> etc_gmt_offset (timezone (parse_tz_token ''-5'')) = Some (-5)"
proof -
  have h: "js_is_int_literal (js_trim ''-5'')" by (simp add: js_eval)
  show ?thesis using pure_offset_zone [OF h] h by (simp add: js_eval)
qed

text \<open>C10: end to end, with a runtime that implements the fixed-offset zones, the cell
  of a pure-offset column \<open>n\<close> at instant \<open>t\<close> is a working hour exactly when the
  hour of \<open>t\<close> shifted by \<open>n\<close> hours is in 8..18.\<close>

theorem pure_offset_working_hours:
  assumes "js_is_int_literal (js_trim tok)" and "-12 \<le> int_literal_value (js_trim tok)"
    and "int_literal_value (js_trim tok) \<le> 14"
  shows "isWorkingHours etc_intl t (timezone (parse_tz_token tok)) =
           Inr (8 \<le> hour_from_time (t + int_literal_value (js_trim tok) * ms_per_hour)
                \<and> hour_from_time (t + int_literal_value (js_trim tok) * ms_per_hour) < 19)"
proof -
  have "etc_gmt_offset (timezone (parse_tz_token tok)) = Some (int_literal_value (js_trim tok))"
    using parse_tz_token_bare_literal [OF assms(1)] iana_timezone_offset assms(2,3) by (simp add: Let_def)
  then show ?thesis
    by (simp add: isWorkingHours_def etc_intl_hour js_ge_def js_lt_def)
qed

theorem pure_offset_working_hours_witness:
  "js_is_int_literal (js_trim ''+9'') \<and> -12 \<le> int_literal_value (js_trim ''+9'') \<and>
   int_literal_value (js_trim ''+9'') \<le> 14 \<and>
   isWorkingHours etc_intl 0 (timezone (parse_tz_token ''+9'')) = Inr True"
proof -
  have h1: "js_is_int_literal (js_trim ''+9'')" by (simp add: js_eval)
  have v: "int_literal_value (js_trim ''+9'') = 9" by (simp add: js_eval)
  have h2: "-12 \<le> int_literal_value (js_trim ''+9'')" and h3: "int_literal_value (js_trim ''+9'') \<le> 14"
    by (simp_all add: v)
  show ?thesis using pure_offset_working_hours [OF h1 h2 h3] h1 h2 h3 v by (simp add: js_eval)
qed

text \<open>C16: a bare integer outside -12..14 anywhere in the parameter makes the whole
  page empty, in any runtime that rejects the \<^verbatim>\<open>Etc/GMT\<close> names IANA does not define
  (all of them do).\<close>

theorem renderTable_offset_out_of_range:
  assumes rt: "\<forall>z. etc_gmt_offset z = None \<longrightarrow> take 7 z = ''Etc/GMT'' \<longrightarrow> \<not> tz_supported (intl b) z"
    and s: "s \<noteq> []" and tok: "tok \<in> set (js_split CHR '','' s)" and lit: "js_is_int_literal (js_trim tok)"
    and out: "\<not> (-12 \<le> int_literal_value (js_trim tok) \<and> int_literal_value (js_trim tok) \<le> 14)"
  shows "\<exists>e. renderTable b (Some s) = (Some e, [])"
proof -
  let ?z = "timezone (parse_tz_token tok)"
  have z: "?z = iana_timezone (Some (- int_literal_value (js_trim tok)))"
    using parse_tz_token_bare_literal [OF lit] by (simp add: Let_def)
  have "\<not> tz_supported (intl b) ?z"
    using rt iana_timezone_offset iana_timezone_prefix out by (simp add: z)
  then show ?thesis using renderTable_fails getTimezones_mem [OF s tok] by blast
qed

theorem renderTable_offset_out_of_range_witness:
  "\<exists>e. renderTable (etc_browser (\<lambda>_. 0)) (Some ''+15'') = (Some e, [])"
proof -
  have h1: "\<forall>z. etc_gmt_offset z = None \<longrightarrow> take 7 z = ''Etc/GMT'' \<longrightarrow> \<not> tz_supported (intl (etc_browser (\<lambda>_. 0))) z"
    by (simp add: etc_intl_supported)
  have h2: "''+15'' \<noteq> []" and h3: "''+15'' \<in> set (js_split CHR '','' ''+15'')" by simp_all
  have h4: "js_is_int_literal (js_trim ''+15'')" by (simp add: js_eval)
  have h5: "\<not> (-12 \<le> int_literal_value (js_trim ''+15'') \<and> int_literal_value (js_trim ''+15'') \<le> 14)"
    by (simp add: js_eval)
  show ?thesis using renderTable_offset_out_of_range [OF h1 h2 h3 h4 h5] by blast
qed

end
